theory Spec2Isabelle
  imports Main "HOL-Library.Sublist"
begin

section \<open>Python text\<close>

text \<open>
  A Python \<open>str\<close> is modelled as a \<open>string\<close> whose characters are the code points
  below U+0100. On that repertoire the functions below follow \<open>str.strip\<close>,
  \<open>str.lower\<close>, \<open>in\<close>, \<open>str.split\<close>, \<open>str.splitlines\<close> and \<open>str.join\<close>.
\<close>

abbreviation dq :: char where
  "dq \<equiv> CHR 0x22"

abbreviation nl :: char where
  "nl \<equiv> CHR 0x0A"

abbreviation sq :: char where
  "sq \<equiv> CHR 0x27"

definition whitespace :: "char list" where
  "whitespace = [CHR 0x09, CHR 0x0A, CHR 0x0B, CHR 0x0C, CHR 0x0D, CHR 0x1C, CHR 0x1D,
     CHR 0x1E, CHR 0x1F, CHR 0x20, CHR 0x85, CHR 0xA0]"

definition isspace :: "char \<Rightarrow> bool" where
  "isspace c = (c \<in> set whitespace)"

definition strip :: "string \<Rightarrow> string" where
  "strip s = rev (dropWhile isspace (rev (dropWhile isspace s)))"

definition uppercase :: "char list" where
  "uppercase = ''ABCDEFGHIJKLMNOPQRSTUVWXYZ'' @
     [CHR 0xC0, CHR 0xC1, CHR 0xC2, CHR 0xC3, CHR 0xC4, CHR 0xC5, CHR 0xC6, CHR 0xC7,
      CHR 0xC8, CHR 0xC9, CHR 0xCA, CHR 0xCB, CHR 0xCC, CHR 0xCD, CHR 0xCE, CHR 0xCF,
      CHR 0xD0, CHR 0xD1, CHR 0xD2, CHR 0xD3, CHR 0xD4, CHR 0xD5, CHR 0xD6,
      CHR 0xD8, CHR 0xD9, CHR 0xDA, CHR 0xDB, CHR 0xDC, CHR 0xDD, CHR 0xDE]"

definition lowercase :: "char list" where
  "lowercase = ''abcdefghijklmnopqrstuvwxyz'' @
     [CHR 0xE0, CHR 0xE1, CHR 0xE2, CHR 0xE3, CHR 0xE4, CHR 0xE5, CHR 0xE6, CHR 0xE7,
      CHR 0xE8, CHR 0xE9, CHR 0xEA, CHR 0xEB, CHR 0xEC, CHR 0xED, CHR 0xEE, CHR 0xEF,
      CHR 0xF0, CHR 0xF1, CHR 0xF2, CHR 0xF3, CHR 0xF4, CHR 0xF5, CHR 0xF6,
      CHR 0xF8, CHR 0xF9, CHR 0xFA, CHR 0xFB, CHR 0xFC, CHR 0xFD, CHR 0xFE]"

definition lower_char :: "char \<Rightarrow> char" where
  "lower_char c = (case map_of (zip uppercase lowercase) c of Some d \<Rightarrow> d | None \<Rightarrow> c)"

definition lower :: "string \<Rightarrow> string" where
  "lower s = map lower_char s"

text \<open>\<open>sub in s\<close> on two strings.\<close>

fun str_in :: "string \<Rightarrow> string \<Rightarrow> bool" where
  "str_in sub [] = (sub = [])"
| "str_in sub (c # cs) = (prefix sub (c # cs) \<or> str_in sub cs)"

text \<open>\<open>s.split(sep)[0]\<close> for a non-empty \<open>sep\<close>: the text before the first occurrence of
  \<open>sep\<close>, and all of \<open>s\<close> when there is none.\<close>

fun split_head :: "string \<Rightarrow> string \<Rightarrow> string" where
  "split_head sep [] = []"
| "split_head sep (c # cs) = (if prefix sep (c # cs) then [] else c # split_head sep cs)"

definition linebreak :: "char \<Rightarrow> bool" where
  "linebreak c = (c \<in> set [CHR 0x0A, CHR 0x0B, CHR 0x0C, CHR 0x0D, CHR 0x1C, CHR 0x1D,
     CHR 0x1E, CHR 0x85])"

text \<open>\<open>s.splitlines()\<close>: \<open>cur\<close> is the line being read, newest character first. A carriage
  return followed by a line feed is one boundary; a boundary at the very end opens no
  further line.\<close>

fun splitlines_from :: "string \<Rightarrow> string \<Rightarrow> string list" where
  "splitlines_from cur [] = (if cur = [] then [] else [rev cur])"
| "splitlines_from cur [c] = (if linebreak c then [rev cur] else [rev (c # cur)])"
| "splitlines_from cur (c # d # cs) =
     (if c = CHR 0x0D \<and> d = CHR 0x0A then rev cur # splitlines_from [] cs
      else if linebreak c then rev cur # splitlines_from [] (d # cs)
      else splitlines_from (c # cur) (d # cs))"

definition splitlines :: "string \<Rightarrow> string list" where
  "splitlines s = splitlines_from [] s"

fun join :: "string \<Rightarrow> string list \<Rightarrow> string" where
  "join sep [] = []"
| "join sep [x] = x"
| "join sep (x # y # ys) = x @ sep @ join sep (y # ys)"

section \<open>pathlib paths\<close>

text \<open>
  A path is the list of its parts, as \<open>PurePosixPath.parts\<close> gives them: the root
  (\<open>/\<close> or \<open>//\<close>) first when the path is absolute, then the components.
\<close>

type_synonym path = "string list"

datatype exn = EOFError | FileNotFoundError | IsADirectoryError | NotADirectoryError
  | DirectoryNotEmpty | ValueError

fun split_on :: "char \<Rightarrow> string \<Rightarrow> string list" where
  "split_on c [] = [[]]"
| "split_on c (x # xs) =
     (if x = c then [] # split_on c xs
      else (case split_on c xs of y # ys \<Rightarrow> (x # y) # ys | [] \<Rightarrow> [[x]]))"

definition is_root :: "string \<Rightarrow> bool" where
  "is_root part = (part = ''/'' \<or> part = ''//'')"

text \<open>\<open>Path(s)\<close>: repeated slashes and single dots vanish; exactly two leading slashes
  are a root of their own.\<close>

definition Path :: "string \<Rightarrow> path" where
  "Path s =
     (let root = (if prefix ''//'' s \<and> \<not> prefix ''///'' s then [''//'']
                  else if prefix ''/'' s then [''/''] else [])
      in root @ filter (\<lambda>part. part \<noteq> [] \<and> part \<noteq> ''.'') (split_on CHR ''/'' s))"

text \<open>\<open>str(path)\<close>.\<close>

definition str_path :: "path \<Rightarrow> string" where
  "str_path p =
     (case p of [] \<Rightarrow> ''.''
      | part # parts \<Rightarrow> if is_root part then part @ join ''/'' parts else join ''/'' p)"

text \<open>\<open>path.name\<close>: the last component, empty for the root and for the empty path.\<close>

definition name :: "path \<Rightarrow> string" where
  "name p = (if p = [] \<or> is_root (last p) then [] else last p)"

fun rfind :: "char \<Rightarrow> string \<Rightarrow> nat option" where
  "rfind c [] = None"
| "rfind c (x # xs) =
     (case rfind c xs of Some i \<Rightarrow> Some (Suc i)
      | None \<Rightarrow> if x = c then Some 0 else None)"

text \<open>\<open>path.suffix\<close>: from the last dot of the name on, unless that dot is the first or
  the last character of the name.\<close>

definition path_suffix :: "path \<Rightarrow> string" where
  "path_suffix p =
     (case rfind CHR ''.'' (name p) of
        None \<Rightarrow> []
      | Some i \<Rightarrow> if 0 < i \<and> i < length (name p) - 1 then drop i (name p) else [])"

text \<open>\<open>path.with_suffix(sfx)\<close>.\<close>

definition with_suffix :: "path \<Rightarrow> string \<Rightarrow> exn + path" where
  "with_suffix p sfx =
     (if str_in ''/'' sfx then Inl ValueError
      else if (sfx \<noteq> [] \<and> \<not> prefix ''.'' sfx) \<or> sfx = ''.'' then Inl ValueError
      else if name p = [] then Inl ValueError
      else let old_suffix = path_suffix p;
               new_name = (if old_suffix = [] then name p @ sfx
                           else take (length (name p) - length old_suffix) (name p) @ sfx)
           in Inr (butlast p @ [new_name]))"

section \<open>The host\<close>

text \<open>
  The file store maps a path to what is there: a regular file with its text, or a
  directory with the names it holds. Text is held as \<open>read_text\<close> returns it and
  \<open>write_text\<close> takes it; decoding and newline translation lie below the model, and so
  do permissions (the scripts insist on running as root) and the directory that holds
  a path, which is taken to exist.
\<close>

datatype node = File string | Dir "string list"

type_synonym store = "path \<Rightarrow> node option"

record completed =
  returncode :: int
  stdout :: string
  stderr :: string

datatype level = INFO | WARNING | ERROR

text \<open>
  The world of one run. \<open>stdin\<close> holds the lines still to be read, \<open>console\<close> what was
  printed, \<open>logged\<close> the log records, \<open>ran\<close> every command handed to \<open>subprocess.run\<close>
  with its \<open>check\<close> flag and its exit status, \<open>clock\<close> the seconds slept. \<open>shell\<close> says
  what a command does to the store and what it reports; \<open>daemon\<close> says what the
  services running in the background do to the store during a sleep that starts at the
  given clock value. Both are fixed for a run.
\<close>

record world =
  euid :: nat
  stdin :: "string list"
  console :: "string list"
  logged :: "(level \<times> string) list"
  files :: store
  ran :: "(string \<times> bool \<times> int) list"
  clock :: nat
  shell :: "string \<Rightarrow> store \<Rightarrow> completed \<times> store"
  daemon :: "nat \<Rightarrow> store \<Rightarrow> store"

text \<open>
  A call returns a value, ends the process through \<open>sys.exit\<close>, or raises an exception
  that nothing catches.
\<close>

datatype 'a result = Return 'a | Exit int | Raise exn

type_synonym 'a prog = "world \<Rightarrow> 'a result \<times> world"

definition then_do :: "'a prog \<Rightarrow> ('a \<Rightarrow> 'b prog) \<Rightarrow> 'b prog" where
  "then_do m f w =
     (case m w of
        (Return x, w') \<Rightarrow> f x w'
      | (Exit n, w') \<Rightarrow> (Exit n, w')
      | (Raise e, w') \<Rightarrow> (Raise e, w'))"

definition pure :: "'a \<Rightarrow> 'a prog" where
  "pure x w = (Return x, w)"

definition sys_exit :: "int \<Rightarrow> 'a prog" where
  "sys_exit n w = (Exit n, w)"

text \<open>The status the operating system sees: a traceback ends the interpreter with 1.\<close>

fun exit_status :: "'a result \<Rightarrow> int" where
  "exit_status (Return x) = 0"
| "exit_status (Exit n) = n"
| "exit_status (Raise e) = 1"

definition print :: "string \<Rightarrow> unit prog" where
  "print s w = (Return (), w\<lparr>console := console w @ [s]\<rparr>)"

definition logger :: "level \<Rightarrow> string \<Rightarrow> unit prog" where
  "logger l msg w = (Return (), w\<lparr>logged := logged w @ [(l, msg)]\<rparr>)"

text \<open>\<open>input(prompt)\<close>: end of input raises \<open>EOFError\<close>.\<close>

definition input :: "string \<Rightarrow> string prog" where
  "input prompt w =
     (case stdin w of
        [] \<Rightarrow> (Raise EOFError, w\<lparr>console := console w @ [prompt]\<rparr>)
      | line # rest \<Rightarrow> (Return line, w\<lparr>stdin := rest, console := console w @ [prompt]\<rparr>))"

definition geteuid :: "nat prog" where
  "geteuid w = (Return (euid w), w)"

definition sleep :: "nat \<Rightarrow> unit prog" where
  "sleep secs w =
     (Return (), w\<lparr>files := daemon w (clock w) (files w), clock := clock w + secs\<rparr>)"

text \<open>\<open>subprocess.run(cmd, check=...)\<close>, with the output captured.\<close>

definition subprocess_run :: "string \<Rightarrow> bool \<Rightarrow> completed prog" where
  "subprocess_run cmd check w =
     (let (result, fs) = shell w cmd (files w)
      in (Return result, w\<lparr>files := fs, ran := ran w @ [(cmd, check, returncode result)]\<rparr>))"

definition path_exists :: "path \<Rightarrow> bool prog" where
  "path_exists p w = (Return (files w p \<noteq> None), w)"

definition is_file :: "path \<Rightarrow> bool prog" where
  "is_file p w = (Return (case files w p of Some (File text) \<Rightarrow> True | _ \<Rightarrow> False), w)"

definition read_text :: "path \<Rightarrow> string prog" where
  "read_text p w =
     (case files w p of
        Some (File text) \<Rightarrow> (Return text, w)
      | Some (Dir entries) \<Rightarrow> (Raise IsADirectoryError, w)
      | None \<Rightarrow> (Raise FileNotFoundError, w))"

definition write_text :: "path \<Rightarrow> string \<Rightarrow> unit prog" where
  "write_text p text w =
     (case files w p of
        Some (Dir entries) \<Rightarrow> (Raise IsADirectoryError, w)
      | _ \<Rightarrow> (Return (), w\<lparr>files := (files w)(p \<mapsto> File text)\<rparr>))"

text \<open>\<open>src.replace(dst)\<close>, the rename of POSIX: a file takes the place of a file, a
  directory the place of an empty directory.\<close>

definition replace :: "path \<Rightarrow> path \<Rightarrow> unit prog" where
  "replace src dst w =
     (case files w src of
        None \<Rightarrow> (Raise FileNotFoundError, w)
      | Some (File text) \<Rightarrow>
          (case files w dst of
             Some (Dir entries) \<Rightarrow> (Raise IsADirectoryError, w)
           | _ \<Rightarrow> (Return (), w\<lparr>files := ((files w)(src := None))(dst \<mapsto> File text)\<rparr>))
      | Some (Dir entries) \<Rightarrow>
          (case files w dst of
             Some (File text) \<Rightarrow> (Raise NotADirectoryError, w)
           | Some (Dir held) \<Rightarrow>
               if held = [] then (Return (), w\<lparr>files := ((files w)(src := None))(dst \<mapsto> Dir entries)\<rparr>)
               else (Raise DirectoryNotEmpty, w)
           | None \<Rightarrow> (Return (), w\<lparr>files := ((files w)(src := None))(dst \<mapsto> Dir entries)\<rparr>)))"

section \<open>Helpers shared by the scripts\<close>

text \<open>
  \<open>check_root\<close>, in both scripts, with the message of each.
\<close>

definition check_root :: "unit prog" where
  "check_root =
     then_do geteuid (\<lambda>uid.
       if uid \<noteq> 0 then
         then_do (logger ERROR ''This script must be run as root or with sudo privileges!'')
           (\<lambda>_. sys_exit 1)
       else pure ())"

definition check_root_site :: "unit prog" where
  "check_root_site =
     then_do geteuid (\<lambda>uid.
       if uid \<noteq> 0 then
         then_do (logger ERROR
             ''This script must be run as root (sudo) if you're using systemd services!'')
           (\<lambda>_. sys_exit 1)
       else pure ())"

text \<open>
  \<open>ask_user\<close>, the same text in both scripts. The \<open>while True\<close> loop reads one line per
  round, so it is a recursion over the lines of standard input; \<open>out\<close> is the console.
\<close>

fun ask_user_loop :: "string \<Rightarrow> string list \<Rightarrow> string list \<Rightarrow> bool result \<times> string list \<times> string list" where
  "ask_user_loop question out [] = (Raise EOFError, [], out @ [question @ '' [y/n]: ''])"
| "ask_user_loop question out (line # rest) =
     (let choice = lower (strip line)
      in if choice \<in> set [''y'', ''yes''] then (Return True, rest, out @ [question @ '' [y/n]: ''])
         else if choice \<in> set [''n'', ''no''] then (Return False, rest, out @ [question @ '' [y/n]: ''])
         else ask_user_loop question
                (out @ [question @ '' [y/n]: ''] @ [''Please answer with y or n.'']) rest)"

definition ask_user :: "string \<Rightarrow> bool prog" where
  "ask_user question w =
     (case ask_user_loop question (console w) (stdin w) of
        (r, rest, out) \<Rightarrow> (r, w\<lparr>stdin := rest, console := out\<rparr>))"

text \<open>
  \<open>run_command\<close> of \<open>setup_darkweb_server.py\<close>. The environment handed to the shell
  (\<open>DEBIAN_FRONTEND\<close>) is part of what \<open>shell\<close> stands for; \<open>logger.debug\<close> prints nothing
  at the configured level.
\<close>

definition run_command :: "string \<Rightarrow> bool \<Rightarrow> string option prog" where
  "run_command command exit_on_fail =
     then_do geteuid (\<lambda>uid.
     let cmd_string = (if uid \<noteq> 0 then ''sudo '' @ command else command) in
     then_do (logger INFO (''Executing command: '' @ command)) (\<lambda>_.
     then_do (subprocess_run cmd_string True) (\<lambda>result.
       if returncode result = 0 then pure (Some (strip (stdout result)))
       else
         then_do (logger ERROR (''Command failed: '' @ strip (stderr result))) (\<lambda>_.
           if exit_on_fail then sys_exit 1 else pure None))))"

text \<open>\<open>run_command\<close> of \<open>update_flask_site.py\<close>.\<close>

definition run_command_site :: "string \<Rightarrow> bool \<Rightarrow> string option prog" where
  "run_command_site cmd exit_on_fail =
     then_do (logger INFO (''Executing command: '' @ cmd)) (\<lambda>_.
     then_do (subprocess_run cmd True) (\<lambda>result.
       if returncode result = 0 then pure (Some (strip (stdout result)))
       else
         then_do (logger ERROR (''Command failed: '' @ strip (stderr result))) (\<lambda>_.
           if exit_on_fail then sys_exit 1 else pure None)))"

text \<open>A block of statements run in order, and a call whose value is dropped.\<close>

fun run_all :: "unit prog list \<Rightarrow> unit prog" where
  "run_all [] = pure ()"
| "run_all (m # ms) = then_do m (\<lambda>_. run_all ms)"

definition ignore :: "'a prog \<Rightarrow> unit prog" where
  "ignore m = then_do m (\<lambda>_. pure ())"

section \<open>setup_darkweb_server.py\<close>

definition wizard_banner :: "unit prog" where
  "wizard_banner = print (join [nl]
     ['''',
      ''###################################################'',
      ''##        Dark Web Server Wizard (Tor Only)      ##'',
      ''##   Single-Instance Tor Hidden Service Setup    ##'',
      ''###################################################'',
      ''''])"

definition detect_selinux :: "bool prog" where
  "detect_selinux =
     then_do (is_file (Path ''/etc/selinux/config'')) (\<lambda>present.
       if present then
         then_do (subprocess_run ''which setenforce'' False) (\<lambda>found.
           let setenforce_path = strip (stdout found) in pure (setenforce_path \<noteq> []))
       else pure False)"

definition purge_old_tor :: "unit prog" where
  "purge_old_tor = run_all
     [logger INFO ''Purging any old Tor or multi-instance config...'',
      ignore (run_command ''systemctl disable tor@default --now'' False),
      ignore (run_command ''systemctl disable tor --now'' False),
      ignore (run_command ''rm -rf /etc/tor/instances'' False),
      ignore (run_command ''apt-get purge -y tor'' False),
      ignore (run_command ''rm -f /etc/tor/torrc /etc/tor/torrc.*'' False),
      ignore (run_command ''rm -rf /var/lib/tor/*'' False),
      logger INFO ''Old tor configs purged.'']"

definition fix_time :: "unit prog" where
  "fix_time = run_all
     [logger INFO ''Syncing system clock with ntpdate...'',
      ignore (run_command ''apt-get update && apt-get install -y ntpdate'' False),
      then_do (run_command ''ntpdate -u pool.ntp.org'' False) (\<lambda>out.
        case out of
          Some text \<Rightarrow>
            if text \<noteq> [] then logger INFO (''ntpdate output: '' @ text)
            else logger WARNING ''Time sync had no output; check network or logs.''
        | None \<Rightarrow> logger WARNING ''Time sync had no output; check network or logs.''),
      ignore (run_command ''timedatectl set-ntp true'' False)]"

definition disable_selinux_if_present :: "unit prog" where
  "disable_selinux_if_present =
     then_do (logger INFO ''Checking if SELinux is present...'') (\<lambda>_.
     then_do detect_selinux (\<lambda>present.
       if present then run_all
         [logger INFO ''SELinux detected; attempting to disable...'',
          ignore (run_command ''setenforce 0'' False),
          ignore (run_command
            ''sed -i 's/^SELINUX=.*/SELINUX=disabled/' /etc/selinux/config'' False),
          logger INFO
            ''SELinux set to permissive/disabled. A reboot may be required on some systems.'']
       else logger INFO ''SELinux not detected or not applicable. Skipping SELinux disable.''))"

definition packages :: "string list" where
  "packages = [''tor'', ''ufw'', ''fail2ban'', ''git'', ''build-essential'', ''openssl'']"

definition install_tor_and_security :: "unit prog" where
  "install_tor_and_security = run_all
     [logger INFO ''Installing Tor and security packages (ufw, fail2ban, etc.)...'',
      ignore (run_command (''apt-get update && apt-get install -y '' @ join '' '' packages) True),
      logger INFO ''Tor (single-instance) & security packages installed.'']"

definition minimal_conf :: string where
  "minimal_conf = join [nl]
     [''SocksPort 9050'',
      ''Log notice file /var/log/tor/notice.log'',
      ''Log debug file /var/log/tor/debug.log'',
      '''',
      ''HiddenServiceDir /var/lib/tor/hidden_service'',
      ''HiddenServicePort 80 127.0.0.1:80'',
      '''']"

definition write_minimal_torrc :: "unit prog" where
  "write_minimal_torrc = run_all
     [logger INFO ''Writing minimal /etc/tor/torrc for single-instance hidden service...'',
      ignore (run_command ''rm -f /etc/tor/torrc'' False),
      write_text (Path ''/etc/tor/torrc'') minimal_conf,
      logger INFO ''Minimal torrc ready.'']"

definition hostname_file :: path where
  "hostname_file = Path ''/var/lib/tor/hidden_service/hostname''"

definition max_wait :: nat where
  "max_wait = 60"

text \<open>
  The wait loop of \<open>enable_tor_single_instance\<close>, from the value \<open>elapsed\<close> has on entry
  to a round.
\<close>

function wait_for_hostname :: "nat \<Rightarrow> string prog" where
  "wait_for_hostname elapsed w =
     (if elapsed < max_wait then
        (if files w hostname_file \<noteq> None then
           then_do (read_text hostname_file) (\<lambda>text.
             let onion_addr = strip text in
             then_do (logger INFO (''Your .onion address is: '' @ onion_addr)) (\<lambda>_.
               pure onion_addr)) w
         else wait_for_hostname (elapsed + 5) (snd (sleep 5 w)))
      else
        then_do (logger ERROR
            ''No /var/lib/tor/hidden_service/hostname found after 60s. Check 'journalctl -u tor'.'')
          (\<lambda>_. sys_exit 1) w)"
  by pat_completeness auto
termination
  by (relation "measure (\<lambda>(elapsed, w). max_wait - elapsed)") (auto simp: max_wait_def)

definition enable_tor_single_instance :: "string prog" where
  "enable_tor_single_instance =
     then_do (logger INFO ''Enabling single-instance tor.service...'') (\<lambda>_.
     then_do (run_command ''systemctl enable tor'' True) (\<lambda>_.
     then_do (run_command ''systemctl restart tor'' True) (\<lambda>_.
     then_do (run_command ''mkdir -p /var/log/tor && chmod 755 /var/log/tor'' False) (\<lambda>_.
       wait_for_hostname 0))))"

definition secure_server :: "unit prog" where
  "secure_server = run_all
     [logger INFO ''Configuring UFW, Fail2Ban, and SSH password auth...'',
      ignore (run_command ''ufw default allow outgoing'' True),
      ignore (run_command ''ufw default deny incoming'' True),
      ignore (run_command ''ufw allow 22/tcp'' True),
      ignore (run_command ''ufw allow 9050'' True),
      ignore (run_command ''ufw allow 80'' True),
      ignore (run_command ''ufw --force enable'' True),
      logger INFO ''UFW enabled. Inbound allowed only on ports 22, 9050, and 80.'',
      ignore (run_command ''systemctl enable fail2ban && systemctl start fail2ban'' True),
      logger INFO ''Fail2Ban enabled.'',
      ignore (run_command
        (''sed -i 's/^#'' @ [CHR 0x5C] @
         ''?PasswordAuthentication.*/PasswordAuthentication yes/' /etc/ssh/sshd_config'') True),
      ignore (run_command ''systemctl restart ssh'' True),
      logger INFO ''SSH password auth is ON (for debugging). Remember to disable if needed.'']"

text \<open>
  The closing message. Between the two port numbers the source holds three characters,
  two of them beyond U+00FF; \<open>arrow\<close> holds those two by their UTF-8 bytes.
\<close>

definition arrow :: string where
  "arrow = [CHR 0xE2, CHR 0xE2, CHR 0x80, CHR 0xA0, CHR 0xE2, CHR 0x80, CHR 0x99]"

definition summary :: "string \<Rightarrow> string" where
  "summary onion_addr = join [nl]
     ['''',
      ''All done!'',
      '''',
      ''Your onion address is: '' @
        (if onion_addr \<noteq> ''UNAVAILABLE'' then onion_addr else ''(not generated)''),
      '''',
      ''If you want to serve HTTP behind Tor, run a web server on 127.0.0.1:80.'',
      ''Tor will map onion:80 '' @ arrow @ '' localhost:80. Then open:'',
      ''  http://'' @ onion_addr,
      ''in Tor Browser (if you started Tor and have the onion address).'',
      '''',
      ''Check logs:'',
      ''  sudo journalctl -u tor -n 100 --no-pager'',
      '''',
      ''Enjoy your single-instance Tor hidden service!'',
      ''    '']"

definition main :: "unit prog" where
  "main =
     then_do check_root (\<lambda>_.
     then_do wizard_banner (\<lambda>_.
     then_do (ask_user ''Purge old Tor configs (recommended for a clean setup)?'') (\<lambda>yes.
     then_do (if yes then purge_old_tor else logger INFO ''Skipping old Tor purge.'') (\<lambda>_.
     then_do (ask_user ''Sync system clock with ntpdate?'') (\<lambda>yes.
     then_do (if yes then fix_time
              else logger INFO
                ''Skipping time sync. Make sure your system clock is correct, or Tor might fail.'') (\<lambda>_.
     then_do (ask_user ''Disable SELinux if present (recommended on RHEL/CentOS)?'') (\<lambda>yes.
     then_do (if yes then disable_selinux_if_present
              else logger INFO
                ''Skipping SELinux disable. If you have SELinux enforced, Tor might have issues.'') (\<lambda>_.
     then_do (ask_user ''Install Tor, UFW, Fail2Ban, Git, and other packages now?'') (\<lambda>yes.
     then_do (if yes then install_tor_and_security
              else logger INFO
                ''Skipping Tor & security package installation. Ensure Tor is installed manually.'') (\<lambda>_.
     then_do (ask_user ''Write a minimal /etc/tor/torrc for a hidden service on port 80?'') (\<lambda>yes.
     then_do (if yes then write_minimal_torrc
              else logger INFO
                ''Skipping minimal torrc. Make sure you have your own config in /etc/tor/torrc.'') (\<lambda>_.
     then_do (ask_user ''Enable and start single-instance Tor now?'') (\<lambda>yes.
     then_do (if yes then enable_tor_single_instance
              else then_do (logger INFO
                     ''Skipping Tor start. Please ensure you manually enable and start Tor.'')
                   (\<lambda>_. pure ''UNAVAILABLE'')) (\<lambda>onion_addr.
     then_do (ask_user ''Configure UFW, enable Fail2Ban, and ensure SSH password auth?'') (\<lambda>yes.
     then_do (if yes then secure_server
              else logger INFO
                ''Skipping security steps. Make sure you have a firewall and Fail2Ban configured.'') (\<lambda>_.
       print (summary onion_addr)))))))))))))))))"

section \<open>update_flask_site.py\<close>

definition is_dir :: "path \<Rightarrow> bool prog" where
  "is_dir p w = (Return (case files w p of Some (Dir entries) \<Rightarrow> True | _ \<Rightarrow> False), w)"

definition raise :: "exn \<Rightarrow> 'a prog" where
  "raise e w = (Raise e, w)"

definition stop_service_if_running :: "string \<Rightarrow> unit prog" where
  "stop_service_if_running service_name =
     then_do (logger INFO (''Checking status of service '' @ [sq] @ service_name @ [sq] @ ''...'')) (\<lambda>_.
     let status_cmd = ''systemctl is-active '' @ service_name in
     then_do (run_command_site status_cmd False) (\<lambda>result.
       if (case result of Some text \<Rightarrow> text \<noteq> [] \<and> str_in ''active'' (lower text)
           | None \<Rightarrow> False)
       then
         then_do (logger INFO (''Service '' @ [sq] @ service_name @ [sq] @ '' is currently active.'')) (\<lambda>_.
         then_do (ask_user (''Stop service '' @ [sq] @ service_name @ [sq] @ '' before editing the site?''))
           (\<lambda>yes.
             if yes then
               then_do (run_command_site (''systemctl stop '' @ service_name) True) (\<lambda>_.
                 logger INFO (''Service '' @ [sq] @ service_name @ [sq] @ '' stopped.''))
             else pure ()))
       else logger INFO
         (''Service '' @ [sq] @ service_name @ [sq] @ '' is not active or not found. Skipping stop.'')))"

definition restart_service :: "string \<Rightarrow> unit prog" where
  "restart_service service_name =
     then_do (logger INFO (''Restarting service '' @ [sq] @ service_name @ [sq] @ ''...'')) (\<lambda>_.
       ignore (run_command_site (''systemctl restart '' @ service_name) False))"

text \<open>
  The capture loop of the manual mode: \<open>input()\<close> shows no prompt; a blank line after at
  least one line ends the capture, and so does the end of input.
\<close>

fun manual_lines :: "string list \<Rightarrow> string list \<Rightarrow> string list \<times> string list" where
  "manual_lines lines [] = (lines, [])"
| "manual_lines lines (line # rest) =
     (if strip line = [] \<and> length lines > 0 then (lines, rest)
      else manual_lines (lines @ [line]) rest)"

definition read_manual :: "string list prog" where
  "read_manual w =
     (case manual_lines [] (stdin w) of (lines, rest) \<Rightarrow> (Return lines, w\<lparr>stdin := rest\<rparr>))"

text \<open>
  \<open>replace_entire_file\<close>. The first half yields the new content, or \<open>None\<close> where the
  source returns early.
\<close>

definition replace_entire_file :: "path \<Rightarrow> unit prog" where
  "replace_entire_file app_path =
     then_do (logger INFO ''You chose to replace the entire Flask application file.'') (\<lambda>_.
     then_do (print
        ''Option 1: Provide the path to a local Python file with your new Flask code.'') (\<lambda>_.
     then_do (print
        ''Option 2: Enter 'manual' to open a direct multiline text editor in the console.'') (\<lambda>_.
     then_do (input ''Enter file path or 'manual': '') (\<lambda>line.
     let choice = strip line in
     then_do
       (if lower choice = ''manual'' then
          then_do (logger INFO
            ''Entering manual edit mode. Type your code below. End with an empty line + Ctrl+D (on Linux).'') (\<lambda>_.
          then_do (print ''> Start typing your code (empty line to finish):'') (\<lambda>_.
          then_do read_manual (\<lambda>lines.
            pure (Some (strip (join [nl] lines))))))
        else
          let file_path = Path choice in
          then_do (is_file file_path) (\<lambda>found.
            if \<not> found then
              then_do (logger ERROR
                (''File not found: '' @ str_path file_path @ ''. Aborting replacement.'')) (\<lambda>_.
                pure None)
            else then_do (read_text file_path) (\<lambda>text. pure (Some text))))
       (\<lambda>content.
          case content of
            None \<Rightarrow> pure ()
          | Some new_content \<Rightarrow>
              (case with_suffix app_path ''.bak'' of
                 Inl e \<Rightarrow> raise e
               | Inr backup_path \<Rightarrow>
                   then_do (path_exists app_path) (\<lambda>present.
                   then_do
                     (if present then
                        then_do (logger INFO
                          (''Backing up existing file to '' @ str_path backup_path)) (\<lambda>_.
                          replace app_path backup_path)
                      else pure ()) (\<lambda>_.
                   then_do (logger INFO (''Writing new Flask code to '' @ str_path app_path)) (\<lambda>_.
                   then_do (write_text app_path new_content) (\<lambda>_.
                     logger INFO ''File replaced successfully.''))))))))))"

text \<open>
  \<open>edit_only_landing_content\<close>. The test of its \<open>for\<close> loop, and the loop with its two
  variables \<open>updated_lines\<close> and \<open>replaced\<close>.
\<close>

definition looks_like_return :: "string \<Rightarrow> bool" where
  "looks_like_return line = (str_in ''return '' line \<and> str_in [dq] line \<and> str_in '','' line)"

fun scan_lines :: "string \<Rightarrow> string list \<Rightarrow> string list \<Rightarrow> bool \<Rightarrow> string list \<times> bool" where
  "scan_lines new_message [] updated_lines replaced = (updated_lines, replaced)"
| "scan_lines new_message (line # rest) updated_lines replaced =
     (if looks_like_return line then
        let pre = split_head ''return'' line @ ''return '';
            new_line = pre @ [dq] @ new_message @ [dq] @ '', 200''
        in scan_lines new_message rest (updated_lines @ [new_line]) True
      else scan_lines new_message rest (updated_lines @ [line]) replaced)"

definition edit_only_landing_content :: "path \<Rightarrow> unit prog" where
  "edit_only_landing_content app_path =
     then_do (logger INFO ''You chose to only edit the landing page content (root route).'') (\<lambda>_.
     then_do (path_exists app_path) (\<lambda>present.
       if \<not> present then logger ERROR (''File not found: '' @ str_path app_path)
       else
         then_do (input ''Enter new site message (without quotes): '') (\<lambda>line.
         let new_message = strip line in
         if new_message = [] then logger INFO ''No new message provided; skipping.''
         else
           then_do (read_text app_path) (\<lambda>text.
           let original_content = splitlines text in
           case scan_lines new_message original_content [] False of
             (updated_lines, replaced) \<Rightarrow>
               if replaced then
                 then_do (write_text app_path (join [nl] updated_lines @ [nl])) (\<lambda>_.
                   logger INFO (''Landing message updated to: '' @ new_message))
               else logger WARNING
                 (''Could not find a line to replace (no 'return '' @ [dq] @ ''...'' @ [dq] @
                  '', 200' pattern found).'')))))"

definition main_site :: "unit prog" where
  "main_site =
     then_do check_root_site (\<lambda>_.
     then_do (print (join [nl]
        ['''',
         ''==============================================================='',
         ''    Wizard to Update Flask Site Content or Code'',
         ''==============================================================='',
         ''''])) (\<lambda>_.
     let default_dir = ''/opt/exfil0_landing'' in
     then_do (input
        (''Path to your Flask app directory? (default: '' @ default_dir @ ''): '')) (\<lambda>line.
     let ask_dir = (if strip line = [] then default_dir else strip line);
         app_dir = Path ask_dir in
     then_do (is_dir app_dir) (\<lambda>found.
     if \<not> found then
       then_do (logger ERROR (''Directory not found: '' @ str_path app_dir)) (\<lambda>_. sys_exit 1)
     else
     let app_file = app_dir @ [''app.py''] in
     then_do (path_exists app_file) (\<lambda>present.
     if \<not> present then
       then_do (logger ERROR (''Flask app file not found at '' @ str_path app_file))
         (\<lambda>_. sys_exit 1)
     else
     let default_service = ''exfil0_flask'' in
     then_do (input
        (''Systemd service name? (default: '' @ default_service @
         '', press Enter if none): '')) (\<lambda>line.
     let ask_service = (if strip line = [] then default_service else strip line) in
     then_do (ask_user
        (''Stop systemd service '' @ [sq] @ ask_service @ [sq] @ '' before proceeding?'')) (\<lambda>yes.
     then_do (if yes then stop_service_if_running ask_service else pure ()) (\<lambda>_.
     then_do (print (join [nl]
        ['''',
         ''Choose an edit mode:'',
         ''1) Replace the entire file with new code.'',
         ''2) Just update the landing page text (the string returned at '/').'',
         ''''])) (\<lambda>_.
     then_do (input ''Select [1/2]: '') (\<lambda>line.
     let mode = strip line in
     if mode \<noteq> ''1'' \<and> mode \<noteq> ''2'' then
       logger INFO ''Invalid selection. Exiting without changes.''
     else
     then_do (if mode = ''1'' then replace_entire_file app_file
              else edit_only_landing_content app_file) (\<lambda>_.
     then_do (ask_user (''Restart systemd service '' @ [sq] @ ask_service @ [sq] @ '' now?'')) (\<lambda>yes.
     then_do (if yes then restart_service ask_service
              else logger INFO
                ''Skipping service restart. Manual restart is required for changes to take effect.'')
       (\<lambda>_.
       print (join [nl]
         ['''',
          ''Done!'',
          ''If you've replaced the entire Flask code, make sure your app is valid Python code.'',
          ''If you just changed the landing page text, your new content should be set.'',
          '''',
          ''To confirm everything, visit your Flask site or check:'',
          ''  systemctl status {ask_service}'',
          '''']))))))))))))))"

section \<open>Hosts to run the scripts on\<close>

text \<open>
  A world from its parts, and the quiet host: root, on which every command succeeds
  without output and nothing happens in the background.
\<close>

definition world_of ::
  "nat \<Rightarrow> string list \<Rightarrow> store \<Rightarrow> (string \<Rightarrow> store \<Rightarrow> completed \<times> store) \<Rightarrow>
   (nat \<Rightarrow> store \<Rightarrow> store) \<Rightarrow> world" where
  "world_of uid lines fs sh dm =
     \<lparr>euid = uid, stdin = lines, console = [], logged = [], files = fs, ran = [],
      clock = 0, shell = sh, daemon = dm\<rparr>"

definition quiet_host :: "string list \<Rightarrow> store \<Rightarrow> world" where
  "quiet_host lines fs =
     world_of 0 lines fs
       (\<lambda>cmd fs. (\<lparr>returncode = 0, stdout = [], stderr = []\<rparr>, fs)) (\<lambda>t fs. fs)"

text \<open>The target \<open>main\<close> of \<open>update_flask_site.py\<close> builds from its default directory.\<close>

definition default_app_file :: path where
  "default_app_file = Path ''/opt/exfil0_landing'' @ [''app.py'']"

text \<open>The world as round \<open>k\<close> of the wait loop finds it: after \<open>k\<close> sleeps of five seconds.\<close>

definition after_sleeps :: "nat \<Rightarrow> world \<Rightarrow> world" where
  "after_sleeps k w = ((\<lambda>v. snd (sleep 5 v)) ^^ k) w"

section \<open>What a run of the setup script leaves behind\<close>

text \<open>
  The commands \<open>setup_darkweb_server.py\<close> runs with \<open>exit_on_fail\<close> left at its default,
  and the record its wait loop logs when the time is up.
\<close>

definition fatal_commands :: "string list" where
  "fatal_commands =
     [''apt-get update && apt-get install -y '' @ join '' '' packages,
      ''systemctl enable tor'',
      ''systemctl restart tor'',
      ''ufw default allow outgoing'',
      ''ufw default deny incoming'',
      ''ufw allow 22/tcp'',
      ''ufw allow 9050'',
      ''ufw allow 80'',
      ''ufw --force enable'',
      ''systemctl enable fail2ban && systemctl start fail2ban'',
      ''sed -i 's/^#'' @ [CHR 0x5C] @
        ''?PasswordAuthentication.*/PasswordAuthentication yes/' /etc/ssh/sshd_config'',
      ''systemctl restart ssh'']"

definition timeout_record :: "level \<times> string" where
  "timeout_record = (ERROR,
     ''No /var/lib/tor/hidden_service/hostname found after 60s. Check 'journalctl -u tor'.'')"

text \<open>
  A world is clean when the process is root, none of those commands has failed so far
  and the wait has not timed out. A call is steady when it leaves the user id alone,
  ends the process with status 1 only, and returns from a clean world to a clean one.
\<close>

definition clean :: "world \<Rightarrow> bool" where
  "clean w =
     (euid w = 0 \<and>
      (\<forall>entry \<in> set (ran w). fst entry \<in> set fatal_commands \<longrightarrow> snd (snd entry) = 0) \<and>
      timeout_record \<notin> set (logged w))"

definition steady :: "'a prog \<Rightarrow> bool" where
  "steady m =
     (\<forall>w. euid (snd (m w)) = euid w \<and>
          (case fst (m w) of
             Return x \<Rightarrow> clean w \<longrightarrow> clean (snd (m w))
           | Exit n \<Rightarrow> n = 1
           | Raise e \<Rightarrow> True))"

section \<open>Facts about the helpers\<close>

lemmas prog_defs = then_do_def pure_def sys_exit_def print_def logger_def input_def
  geteuid_def sleep_def subprocess_run_def path_exists_def is_file_def read_text_def
  write_text_def replace_def raise_def is_dir_def ignore_def

lemmas text_defs = strip_def isspace_def whitespace_def lower_def lower_char_def
  uppercase_def lowercase_def splitlines_def linebreak_def looks_like_return_def

lemmas host_defs = quiet_host_def world_of_def

lemma default_app_file_parts:
  "default_app_file = [''/'', ''opt'', ''exfil0_landing'', ''app.py'']"
  by (simp add: default_app_file_def Path_def)

lemma scan_lines_map:
  "scan_lines m ls acc r =
     (acc @ map (\<lambda>l. if looks_like_return l
                       then split_head ''return'' l @ ''return '' @ [dq] @ m @ [dq] @ '', 200''
                       else l) ls,
      r \<or> (\<exists>l \<in> set ls. looks_like_return l))"
  by (induction ls arbitrary: acc r) (auto simp: Let_def)




section \<open>The confirmation gate and the command runner\<close>



text \<open>
  C4. \<open>run_command\<close>, in both scripts: exit status zero returns the captured standard
  output (trimmed, as the code returns it); a non-zero status ends the process with
  status 1 when \<open>exit_on_fail\<close> holds, which is the default of the parameter, and
  returns \<open>None\<close> to the caller when it does not.
\<close>

theorem run_command_classifies:
  "(shell w (if euid w \<noteq> 0 then ''sudo '' @ command else command) (files w) = (result, fs) \<longrightarrow>
     (returncode result = 0 \<longrightarrow>
        fst (run_command command exit_on_fail w) = Return (Some (strip (stdout result)))) \<and>
     (returncode result \<noteq> 0 \<longrightarrow>
        fst (run_command command True w) = Exit 1 \<and>
        exit_status (fst (run_command command True w)) \<noteq> 0 \<and>
        fst (run_command command False w) = Return None)) \<and>
   (shell w command (files w) = (result, fs) \<longrightarrow>
     (returncode result = 0 \<longrightarrow>
        fst (run_command_site command exit_on_fail w) = Return (Some (strip (stdout result)))) \<and>
     (returncode result \<noteq> 0 \<longrightarrow>
        fst (run_command_site command True w) = Exit 1 \<and>
        exit_status (fst (run_command_site command True w)) \<noteq> 0 \<and>
        fst (run_command_site command False w) = Return None))"
  by (simp add: run_command_def run_command_site_def prog_defs Let_def)

theorem run_command_classifies_witness:
  "fst (run_command ''true'' True
     (world_of 0 [] Map.empty
        (\<lambda>cmd fs. (\<lparr>returncode = 0, stdout = '' ok '' @ [nl], stderr = []\<rparr>, fs)) (\<lambda>t fs. fs)))
     = Return (Some ''ok'') \<and>
   fst (run_command ''false'' True
     (world_of 0 [] Map.empty
        (\<lambda>cmd fs. (\<lparr>returncode = 1, stdout = [], stderr = ''boom''\<rparr>, fs)) (\<lambda>t fs. fs)))
     = Exit 1 \<and>
   fst (run_command ''false'' False
     (world_of 0 [] Map.empty
        (\<lambda>cmd fs. (\<lparr>returncode = 1, stdout = [], stderr = ''boom''\<rparr>, fs)) (\<lambda>t fs. fs)))
     = Return None \<and>
   fst (run_command_site ''true'' True
     (world_of 0 [] Map.empty
        (\<lambda>cmd fs. (\<lparr>returncode = 0, stdout = '' ok '' @ [nl], stderr = []\<rparr>, fs)) (\<lambda>t fs. fs)))
     = Return (Some ''ok'') \<and>
   fst (run_command_site ''false'' True
     (world_of 0 [] Map.empty
        (\<lambda>cmd fs. (\<lparr>returncode = 1, stdout = [], stderr = ''boom''\<rparr>, fs)) (\<lambda>t fs. fs)))
     = Exit 1 \<and>
   fst (run_command_site ''false'' False
     (world_of 0 [] Map.empty
        (\<lambda>cmd fs. (\<lparr>returncode = 1, stdout = [], stderr = ''boom''\<rparr>, fs)) (\<lambda>t fs. fs)))
     = Return None"
  using run_command_classifies [of
      "world_of 0 [] Map.empty
        (\<lambda>cmd fs. (\<lparr>returncode = 0, stdout = '' ok '' @ [nl], stderr = []\<rparr>, fs)) (\<lambda>t fs. fs)"
      "''true''" "\<lparr>returncode = 0, stdout = '' ok '' @ [nl], stderr = []\<rparr>" Map.empty True]
    run_command_classifies [of
      "world_of 0 [] Map.empty
        (\<lambda>cmd fs. (\<lparr>returncode = 1, stdout = [], stderr = ''boom''\<rparr>, fs)) (\<lambda>t fs. fs)"
      "''false''" "\<lparr>returncode = 1, stdout = [], stderr = ''boom''\<rparr>" Map.empty True]
  by (simp add: host_defs text_defs)

section \<open>The targeted patch\<close>

text \<open>
  C10. A replacement message that is empty or all white space makes
  \<open>edit_only_landing_content\<close> return at once: the store is unchanged, and where the
  target exists the world differs only by the prompt shown, the line read and the two
  log records.
\<close>

theorem blank_message_skips:
  "stdin w = line # rest \<Longrightarrow> strip line = [] \<Longrightarrow>
   fst (edit_only_landing_content app_path w) = Return () \<and>
   files (snd (edit_only_landing_content app_path w)) = files w \<and>
   (files w app_path \<noteq> None \<longrightarrow>
      snd (edit_only_landing_content app_path w) =
        w\<lparr>stdin := rest,
          console := console w @ [''Enter new site message (without quotes): ''],
          logged := logged w @
            [(INFO, ''You chose to only edit the landing page content (root route).''),
             (INFO, ''No new message provided; skipping.'')]\<rparr>)"
  by (simp add: edit_only_landing_content_def prog_defs)

theorem blank_message_skips_witness:
  "strip ''   '' = [] \<and>
   fst (edit_only_landing_content default_app_file
     (quiet_host [''   ''] [default_app_file \<mapsto> File (''return '' @ [dq] @ ''Old'' @ [dq] @ '', 200'')]))
     = Return () \<and>
   files (snd (edit_only_landing_content default_app_file
     (quiet_host [''   ''] [default_app_file \<mapsto> File (''return '' @ [dq] @ ''Old'' @ [dq] @ '', 200'')])))
     = [default_app_file \<mapsto> File (''return '' @ [dq] @ ''Old'' @ [dq] @ '', 200'')] \<and>
   logged (snd (edit_only_landing_content default_app_file
     (quiet_host [''   ''] [default_app_file \<mapsto> File (''return '' @ [dq] @ ''Old'' @ [dq] @ '', 200'')])))
     = [(INFO, ''You chose to only edit the landing page content (root route).''),
        (INFO, ''No new message provided; skipping.'')]"
  using blank_message_skips [of
      "quiet_host [''   ''] [default_app_file \<mapsto> File (''return '' @ [dq] @ ''Old'' @ [dq] @ '', 200'')]"
      "''   ''" "[]" default_app_file]
  by (simp add: host_defs text_defs)

text \<open>
  C5, as the code has it. The test of the loop asks only that a line hold \<open>return\<close> with
  a blank after it, a double quote and a comma, anywhere. When no line of the target
  file passes that test, the store is left as it was, whatever the operator types; with
  a message that is not blank the call returns after the warning that no line was
  found, and nothing is appended or patched.
\<close>

theorem no_match_no_write:
  "files w app_path = Some (File text) \<Longrightarrow>
   \<forall>l \<in> set (splitlines text). \<not> looks_like_return l \<Longrightarrow>
   files (snd (edit_only_landing_content app_path w)) = files w \<and>
   (\<forall>line rest. stdin w = line # rest \<and> strip line \<noteq> [] \<longrightarrow>
      edit_only_landing_content app_path w =
        (Return (),
         w\<lparr>stdin := rest,
           console := console w @ [''Enter new site message (without quotes): ''],
           logged := logged w @
             [(INFO, ''You chose to only edit the landing page content (root route).''),
              (WARNING, ''Could not find a line to replace (no 'return '' @ [dq] @ ''...'' @ [dq] @
                  '', 200' pattern found).'')]\<rparr>))"
  by (auto simp: edit_only_landing_content_def prog_defs scan_lines_map Let_def split: list.splits)

theorem no_match_no_write_witness:
  "(\<forall>l \<in> set (splitlines (''print(1)'' @ [nl] @ ''return 200'' @ [nl])). \<not> looks_like_return l) = True \<and>
   files (snd (edit_only_landing_content default_app_file
     (quiet_host [''Hello''] [default_app_file \<mapsto> File (''print(1)'' @ [nl] @ ''return 200'' @ [nl])])))
     = [default_app_file \<mapsto> File (''print(1)'' @ [nl] @ ''return 200'' @ [nl])] \<and>
   fst (edit_only_landing_content default_app_file
     (quiet_host [''Hello''] [default_app_file \<mapsto> File (''print(1)'' @ [nl] @ ''return 200'' @ [nl])]))
     = Return () \<and>
   logged (snd (edit_only_landing_content default_app_file
     (quiet_host [''Hello''] [default_app_file \<mapsto> File (''print(1)'' @ [nl] @ ''return 200'' @ [nl])])))
     = [(INFO, ''You chose to only edit the landing page content (root route).''),
        (WARNING, ''Could not find a line to replace (no 'return '' @ [dq] @ ''...'' @ [dq] @
                  '', 200' pattern found).'')]"
  using no_match_no_write [of
      "quiet_host [''Hello''] [default_app_file \<mapsto> File (''print(1)'' @ [nl] @ ''return 200'' @ [nl])]"
      default_app_file "''print(1)'' @ [nl] @ ''return 200'' @ [nl]"]
  by (simp add: host_defs text_defs)

text \<open>
  C5, as the claim words it, fails on a file whose only line is an assignment of a quoted
  text that holds \<open>return\<close> and a comma: the line is no return statement and carries no
  status (it holds no digit), yet it passes the test and the file is rewritten.
\<close>

theorem patches_line_without_status_counterexample:
  "\<not> prefix ''return'' (strip (''msg = '' @ [dq] @ ''return soon, ok'' @ [dq])) \<and>
   filter (\<lambda>c. c \<in> set ''0123456789'') (''msg = '' @ [dq] @ ''return soon, ok'' @ [dq]) = [] \<and>
   files (snd (edit_only_landing_content default_app_file
      (quiet_host [''Hello'']
         [default_app_file \<mapsto> File (''msg = '' @ [dq] @ ''return soon, ok'' @ [dq] @ [nl])])))
     default_app_file
   = Some (File (''msg = '' @ [dq] @ ''return '' @ [dq] @ ''Hello'' @ [dq] @ '', 200'' @ [nl])) \<and>
   Some (File (''msg = '' @ [dq] @ ''return '' @ [dq] @ ''Hello'' @ [dq] @ '', 200'' @ [nl]))
   \<noteq> Some (File (''msg = '' @ [dq] @ ''return soon, ok'' @ [dq] @ [nl]))"
  by (simp add: edit_only_landing_content_def prog_defs host_defs text_defs Let_def
      default_app_file_parts)




section \<open>The full replacement\<close>

lemma replace_entire_file_from_file:
  assumes "stdin w = line # rest" "lower (strip line) \<noteq> ''manual''"
    "files w (Path (strip line)) = Some (File new_content)"
    "with_suffix app_path ''.bak'' = Inr backup_path"
    "files w app_path = Some (File old)"
    "\<forall>entries. files w backup_path \<noteq> Some (Dir entries)"
    "backup_path \<noteq> app_path"
  shows "replace_entire_file app_path w =
     (Return (),
      w\<lparr>stdin := rest,
        console := console w @
          [''Option 1: Provide the path to a local Python file with your new Flask code.'',
           ''Option 2: Enter 'manual' to open a direct multiline text editor in the console.'',
           ''Enter file path or 'manual': ''],
        logged := logged w @
          [(INFO, ''You chose to replace the entire Flask application file.''),
           (INFO, ''Backing up existing file to '' @ str_path backup_path),
           (INFO, ''Writing new Flask code to '' @ str_path app_path),
           (INFO, ''File replaced successfully.'')],
        files := (files w)(backup_path \<mapsto> File old, app_path \<mapsto> File new_content)\<rparr>)"
proof -
  have bak: "files w backup_path = None \<or> (\<exists>t. files w backup_path = Some (File t))"
    using assms(6) by (cases "files w backup_path") (auto intro: node.exhaust)
  have upd: "(files w)(app_path := None, backup_path \<mapsto> File old, app_path \<mapsto> File new_content)
     = (files w)(backup_path \<mapsto> File old, app_path \<mapsto> File new_content)"
    using assms(7) by (auto simp: fun_eq_iff)
  show ?thesis
    using assms(1-5,7) bak
    by (auto simp: replace_entire_file_def prog_defs Let_def upd)
qed

lemma manual_lines_rest:
  "acc \<noteq> [] \<Longrightarrow> \<forall>l \<in> set body. strip l \<noteq> [] \<Longrightarrow> strip blank = [] \<Longrightarrow>
   manual_lines acc (body @ blank # later) = (acc @ body, later)"
  by (induction body arbitrary: acc) simp_all

lemma manual_lines_eof:
  "\<forall>l \<in> set body. strip l \<noteq> [] \<Longrightarrow> manual_lines acc body = (acc @ body, [])"
  by (induction body arbitrary: acc) simp_all

lemma replace_entire_file_typed:
  assumes "stdin w = line # rest" "lower (strip line) = ''manual''"
    "with_suffix app_path ''.bak'' = Inr backup_path"
    "files w app_path = Some (File old)"
    "\<forall>entries. files w backup_path \<noteq> Some (Dir entries)"
    "backup_path \<noteq> app_path"
  shows "fst (replace_entire_file app_path w) = Return () \<and>
    files (snd (replace_entire_file app_path w)) =
      (files w)(backup_path \<mapsto> File old,
                app_path \<mapsto> File (strip (join [nl] (fst (manual_lines [] rest))))) \<and>
    stdin (snd (replace_entire_file app_path w)) = snd (manual_lines [] rest)"
proof -
  have bak: "files w backup_path = None \<or> (\<exists>t. files w backup_path = Some (File t))"
    using assms(5) by (cases "files w backup_path") (auto intro: node.exhaust)
  have upd: "\<And>c. (files w)(app_path := None, backup_path \<mapsto> File old, app_path \<mapsto> File c)
     = (files w)(backup_path \<mapsto> File old, app_path \<mapsto> File c)"
    using assms(6) by (auto simp: fun_eq_iff)
  show ?thesis
    using assms(1-4,6) bak
    by (auto simp: replace_entire_file_def prog_defs read_manual_def Let_def upd split: prod.splits)
qed


lemma rfind_absent: "c \<notin> set xs \<Longrightarrow> rfind c xs = None"
  by (induction xs) auto

lemma rfind_last: "c \<notin> set ext \<Longrightarrow> rfind c (stem @ c # ext) = Some (length stem)"
  by (induction stem) (auto simp: rfind_absent)

lemma root_has_no_dot: "is_root part \<Longrightarrow> CHR ''.'' \<notin> set part"
  by (auto simp: is_root_def)

lemma with_suffix_swaps:
  assumes "stem \<noteq> []" "ext \<noteq> []" "CHR ''.'' \<notin> set ext"
  shows "with_suffix (dir @ [stem @ CHR ''.'' # ext]) ''.bak'' = Inr (dir @ [stem @ ''.bak''])"
proof -
  have "CHR ''.'' \<in> set (stem @ CHR ''.'' # ext)" by simp
  then have "\<not> is_root (stem @ CHR ''.'' # ext)" using root_has_no_dot by blast
  then have nm: "name (dir @ [stem @ CHR ''.'' # ext]) = stem @ CHR ''.'' # ext"
    by (simp add: name_def)
  have sf: "path_suffix (dir @ [stem @ CHR ''.'' # ext]) = CHR ''.'' # ext"
    using assms by (simp add: path_suffix_def nm rfind_last)
  show ?thesis
    using assms(1) by (simp add: with_suffix_def nm sf Let_def)
qed

lemma app_py_backup: "with_suffix (dir @ [''app.py'']) ''.bak'' = Inr (dir @ [''app.bak''])"
  using with_suffix_swaps [of "''app''" "''py''" dir] by simp

lemmas path_defs = Path_def with_suffix_def name_def path_suffix_def is_root_def str_path_def

text \<open>
  C6. When the operator names a source that is no existing regular file (a missing path
  or a directory), \<open>replace_entire_file\<close> logs the \<open>File not found\<close> error and returns:
  the store is unchanged, so no backup is made and the target keeps its content, and the
  caller goes on with its next statement.
\<close>

theorem missing_source_aborts:
  "stdin w = line # rest \<Longrightarrow> lower (strip line) \<noteq> ''manual'' \<Longrightarrow>
   \<forall>text. files w (Path (strip line)) \<noteq> Some (File text) \<Longrightarrow>
   replace_entire_file app_path w =
     (Return (),
      w\<lparr>stdin := rest,
        console := console w @
          [''Option 1: Provide the path to a local Python file with your new Flask code.'',
           ''Option 2: Enter 'manual' to open a direct multiline text editor in the console.'',
           ''Enter file path or 'manual': ''],
        logged := logged w @
          [(INFO, ''You chose to replace the entire Flask application file.''),
           (ERROR, ''File not found: '' @ str_path (Path (strip line)) @
                   ''. Aborting replacement.'')]\<rparr>) \<and>
   files (snd (replace_entire_file app_path w)) = files w \<and>
   exit_status (fst (replace_entire_file app_path w)) = 0 \<and>
   (\<forall>next_step. then_do (replace_entire_file app_path) next_step w =
        next_step () (snd (replace_entire_file app_path w)))"
proof -
  assume a: "stdin w = line # rest" "lower (strip line) \<noteq> ''manual''"
    "\<forall>text. files w (Path (strip line)) \<noteq> Some (File text)"
  have nf: "(case files w (Path (strip line)) of Some (File text) \<Rightarrow> True | _ \<Rightarrow> False) = False"
    using a(3) by (auto split: option.splits node.splits)
  have main: "replace_entire_file app_path w =
     (Return (),
      w\<lparr>stdin := rest,
        console := console w @
          [''Option 1: Provide the path to a local Python file with your new Flask code.'',
           ''Option 2: Enter 'manual' to open a direct multiline text editor in the console.'',
           ''Enter file path or 'manual': ''],
        logged := logged w @
          [(INFO, ''You chose to replace the entire Flask application file.''),
           (ERROR, ''File not found: '' @ str_path (Path (strip line)) @
                   ''. Aborting replacement.'')]\<rparr>)"
    using a(1,2) by (simp add: replace_entire_file_def prog_defs Let_def nf)
  show ?thesis
    unfolding main by (simp add: then_do_def main)
qed

theorem missing_source_aborts_witness:
  "lower (strip ''/tmp/none.py'') \<noteq> ''manual'' \<and>
   (\<forall>text. files (quiet_host [''/tmp/none.py''] [default_app_file \<mapsto> File ''v1''])
       (Path (strip ''/tmp/none.py'')) \<noteq> Some (File text)) \<and>
   fst (replace_entire_file default_app_file
     (quiet_host [''/tmp/none.py''] [default_app_file \<mapsto> File ''v1''])) = Return () \<and>
   files (snd (replace_entire_file default_app_file
     (quiet_host [''/tmp/none.py''] [default_app_file \<mapsto> File ''v1'']))) =
     [default_app_file \<mapsto> File ''v1''] \<and>
   logged (snd (replace_entire_file default_app_file
     (quiet_host [''/tmp/none.py''] [default_app_file \<mapsto> File ''v1'']))) =
     [(INFO, ''You chose to replace the entire Flask application file.''),
      (ERROR, ''File not found: /tmp/none.py. Aborting replacement.'')]"
proof -
  have h1: "stdin (quiet_host [''/tmp/none.py''] [default_app_file \<mapsto> File ''v1''])
      = ''/tmp/none.py'' # []"
    by (simp add: host_defs)
  have h2: "lower (strip ''/tmp/none.py'') \<noteq> ''manual''"
    by (simp add: text_defs)
  have h3: "\<forall>text. files (quiet_host [''/tmp/none.py''] [default_app_file \<mapsto> File ''v1''])
       (Path (strip ''/tmp/none.py'')) \<noteq> Some (File text)"
    by (simp add: host_defs text_defs path_defs default_app_file_parts)
  note t = missing_source_aborts [OF h1 h2 h3, of default_app_file]
  have s: "str_path (Path (strip ''/tmp/none.py'')) = ''/tmp/none.py''"
    by (simp add: text_defs path_defs)
  show ?thesis
    using h2 h3 t [THEN conjunct1] by (simp add: host_defs s)
qed

text \<open>
  C2, as the code has it. A regular file at the target, and a backup path (the target
  with its final extension replaced by \<open>.bak\<close>) that is another path, as it is for the
  \<open>app.py\<close> that \<open>main\<close> passes, and no directory: after \<open>replace_entire_file\<close> the backup
  path holds the text the target had, the target holds the new content, and no other
  path changed. The new content is the text of the file the operator names; in manual
  mode it is the first line typed and the lines after it up to the first blank line or
  the end of input, joined by line feeds and trimmed, and nothing after that blank line
  is read. A second replacement puts the first replacement's content at the backup path,
  where it takes the place of the earlier backup, and logs nothing but \<open>INFO\<close> records.
\<close>

theorem full_replacement_keeps_one_backup:
  assumes "with_suffix app_path ''.bak'' = Inr backup_path" "backup_path \<noteq> app_path"
    "files w app_path = Some (File old)"
    "\<forall>entries. files w backup_path \<noteq> Some (Dir entries)"
    "stdin w = line # rest"
  shows
   "(lower (strip line) \<noteq> ''manual'' \<and> files w (Path (strip line)) = Some (File new_content) \<longrightarrow>
       fst (replace_entire_file app_path w) = Return () \<and>
       files (snd (replace_entire_file app_path w)) backup_path = Some (File old) \<and>
       files (snd (replace_entire_file app_path w)) app_path = Some (File new_content) \<and>
       (\<forall>p. p \<noteq> app_path \<and> p \<noteq> backup_path \<longrightarrow>
          files (snd (replace_entire_file app_path w)) p = files w p)) \<and>
    (lower (strip line) = ''manual'' \<and> (\<forall>l \<in> set body. strip l \<noteq> []) \<and> strip blank = [] \<and>
     rest = first # body @ blank # later \<longrightarrow>
       fst (replace_entire_file app_path w) = Return () \<and>
       files (snd (replace_entire_file app_path w)) backup_path = Some (File old) \<and>
       files (snd (replace_entire_file app_path w)) app_path =
         Some (File (strip (join [nl] (first # body)))) \<and>
       stdin (snd (replace_entire_file app_path w)) = later \<and>
       (\<forall>p. p \<noteq> app_path \<and> p \<noteq> backup_path \<longrightarrow>
          files (snd (replace_entire_file app_path w)) p = files w p)) \<and>
    (lower (strip line) = ''manual'' \<and> (\<forall>l \<in> set body. strip l \<noteq> []) \<and>
     rest = first # body \<longrightarrow>
       fst (replace_entire_file app_path w) = Return () \<and>
       files (snd (replace_entire_file app_path w)) backup_path = Some (File old) \<and>
       files (snd (replace_entire_file app_path w)) app_path =
         Some (File (strip (join [nl] (first # body)))) \<and>
       stdin (snd (replace_entire_file app_path w)) = [] \<and>
       (\<forall>p. p \<noteq> app_path \<and> p \<noteq> backup_path \<longrightarrow>
          files (snd (replace_entire_file app_path w)) p = files w p)) \<and>
    (lower (strip line) = ''manual'' \<and> rest = [] \<longrightarrow>
       fst (replace_entire_file app_path w) = Return () \<and>
       files (snd (replace_entire_file app_path w)) backup_path = Some (File old) \<and>
       files (snd (replace_entire_file app_path w)) app_path = Some (File []) \<and>
       (\<forall>p. p \<noteq> app_path \<and> p \<noteq> backup_path \<longrightarrow>
          files (snd (replace_entire_file app_path w)) p = files w p)) \<and>
    (\<forall>line2 rest2 newer.
       lower (strip line) \<noteq> ''manual'' \<and> files w (Path (strip line)) = Some (File new_content) \<and>
       rest = line2 # rest2 \<and> lower (strip line2) \<noteq> ''manual'' \<and>
       files (snd (replace_entire_file app_path w)) (Path (strip line2)) = Some (File newer) \<longrightarrow>
       fst (replace_entire_file app_path (snd (replace_entire_file app_path w))) = Return () \<and>
       files (snd (replace_entire_file app_path (snd (replace_entire_file app_path w)))) backup_path
         = Some (File new_content) \<and>
       files (snd (replace_entire_file app_path (snd (replace_entire_file app_path w)))) app_path
         = Some (File newer) \<and>
       (\<forall>p. p \<noteq> app_path \<and> p \<noteq> backup_path \<longrightarrow>
          files (snd (replace_entire_file app_path (snd (replace_entire_file app_path w)))) p
            = files w p) \<and>
       list_all (\<lambda>r. fst r = INFO)
         (drop (length (logged w))
            (logged (snd (replace_entire_file app_path (snd (replace_entire_file app_path w)))))))"
proof (intro conjI impI allI)
  assume h: "lower (strip line) \<noteq> ''manual'' \<and> files w (Path (strip line)) = Some (File new_content)"
  note one = replace_entire_file_from_file [OF assms(5) conjunct1 [OF h] conjunct2 [OF h]
      assms(1) assms(3) assms(4) assms(2)]
  show "fst (replace_entire_file app_path w) = Return ()" by (simp add: one)
  show "files (snd (replace_entire_file app_path w)) backup_path = Some (File old)"
    using assms(2) by (simp add: one)
  show "files (snd (replace_entire_file app_path w)) app_path = Some (File new_content)"
    by (simp add: one)
  fix p assume "p \<noteq> app_path \<and> p \<noteq> backup_path"
  then show "files (snd (replace_entire_file app_path w)) p = files w p" by (simp add: one)
next
  assume h: "lower (strip line) = ''manual'' \<and> (\<forall>l \<in> set body. strip l \<noteq> []) \<and>
     strip blank = [] \<and> rest = first # body @ blank # later"
  then have m: "lower (strip line) = ''manual''"
    and cap: "manual_lines [] rest = (first # body, later)"
    by (simp_all add: manual_lines_rest)
  note man = replace_entire_file_typed [OF assms(5) m assms(1) assms(3) assms(4) assms(2)]
  show "fst (replace_entire_file app_path w) = Return ()" by (simp add: man)
  show "files (snd (replace_entire_file app_path w)) backup_path = Some (File old)"
    using assms(2) by (simp add: man)
  show "files (snd (replace_entire_file app_path w)) app_path =
         Some (File (strip (join [nl] (first # body))))"
    by (simp add: man cap)
  show "stdin (snd (replace_entire_file app_path w)) = later" by (simp add: man cap)
  fix p assume "p \<noteq> app_path \<and> p \<noteq> backup_path"
  then show "files (snd (replace_entire_file app_path w)) p = files w p" by (simp add: man)
next
  assume h: "lower (strip line) = ''manual'' \<and> (\<forall>l \<in> set body. strip l \<noteq> []) \<and>
     rest = first # body"
  then have m: "lower (strip line) = ''manual''"
    and cap: "manual_lines [] rest = (first # body, [])"
    by (simp_all add: manual_lines_eof)
  note man = replace_entire_file_typed [OF assms(5) m assms(1) assms(3) assms(4) assms(2)]
  show "fst (replace_entire_file app_path w) = Return ()" by (simp add: man)
  show "files (snd (replace_entire_file app_path w)) backup_path = Some (File old)"
    using assms(2) by (simp add: man)
  show "files (snd (replace_entire_file app_path w)) app_path =
         Some (File (strip (join [nl] (first # body))))"
    by (simp add: man cap)
  show "stdin (snd (replace_entire_file app_path w)) = []" by (simp add: man cap)
  fix p assume "p \<noteq> app_path \<and> p \<noteq> backup_path"
  then show "files (snd (replace_entire_file app_path w)) p = files w p" by (simp add: man)
next
  assume h: "lower (strip line) = ''manual'' \<and> rest = []"
  then have m: "lower (strip line) = ''manual''" and cap: "manual_lines [] rest = ([], [])"
    by simp_all
  note man = replace_entire_file_typed [OF assms(5) m assms(1) assms(3) assms(4) assms(2)]
  show "fst (replace_entire_file app_path w) = Return ()" by (simp add: man)
  show "files (snd (replace_entire_file app_path w)) backup_path = Some (File old)"
    using assms(2) by (simp add: man)
  show "files (snd (replace_entire_file app_path w)) app_path = Some (File [])"
    by (simp add: man cap strip_def)
  fix p assume "p \<noteq> app_path \<and> p \<noteq> backup_path"
  then show "files (snd (replace_entire_file app_path w)) p = files w p" by (simp add: man)
next
  fix line2 rest2 newer
  assume h: "lower (strip line) \<noteq> ''manual'' \<and> files w (Path (strip line)) = Some (File new_content) \<and>
       rest = line2 # rest2 \<and> lower (strip line2) \<noteq> ''manual'' \<and>
       files (snd (replace_entire_file app_path w)) (Path (strip line2)) = Some (File newer)"
  then have h1: "lower (strip line) \<noteq> ''manual''"
    and h2: "files w (Path (strip line)) = Some (File new_content)"
    and h3: "rest = line2 # rest2" and h4: "lower (strip line2) \<noteq> ''manual''"
    and h5: "files (snd (replace_entire_file app_path w)) (Path (strip line2)) = Some (File newer)"
    by simp_all
  note one = replace_entire_file_from_file [OF assms(5) h1 h2 assms(1) assms(3) assms(4) assms(2)]
  define w1 where "w1 = snd (replace_entire_file app_path w)"
  have s1: "stdin w1 = line2 # rest2" by (simp add: w1_def one h3)
  have a1: "files w1 app_path = Some (File new_content)" by (simp add: w1_def one)
  have b1: "\<forall>entries. files w1 backup_path \<noteq> Some (Dir entries)"
    using assms(2) by (simp add: w1_def one)
  have f1: "files w1 = (files w)(backup_path \<mapsto> File old, app_path \<mapsto> File new_content)"
    by (simp add: w1_def one)
  have l1: "logged w1 = logged w @
          [(INFO, ''You chose to replace the entire Flask application file.''),
           (INFO, ''Backing up existing file to '' @ str_path backup_path),
           (INFO, ''Writing new Flask code to '' @ str_path app_path),
           (INFO, ''File replaced successfully.'')]"
    by (simp add: w1_def one)
  have h5': "files w1 (Path (strip line2)) = Some (File newer)" using h5 by (simp add: w1_def)
  note two = replace_entire_file_from_file [OF s1 h4 h5' assms(1) a1 b1 assms(2)]
  show "fst (replace_entire_file app_path (snd (replace_entire_file app_path w))) = Return ()"
    unfolding w1_def [symmetric] by (simp add: two)
  show "files (snd (replace_entire_file app_path (snd (replace_entire_file app_path w)))) backup_path
         = Some (File new_content)"
    unfolding w1_def [symmetric] using assms(2) by (simp add: two)
  show "files (snd (replace_entire_file app_path (snd (replace_entire_file app_path w)))) app_path
         = Some (File newer)"
    unfolding w1_def [symmetric] by (simp add: two)
  show "list_all (\<lambda>r. fst r = INFO)
         (drop (length (logged w))
            (logged (snd (replace_entire_file app_path (snd (replace_entire_file app_path w))))))"
    unfolding w1_def [symmetric] by (simp add: two l1)
  fix p assume "p \<noteq> app_path \<and> p \<noteq> backup_path"
  then show "files (snd (replace_entire_file app_path (snd (replace_entire_file app_path w)))) p
            = files w p"
    unfolding w1_def [symmetric] by (simp add: two f1)
qed

theorem full_replacement_keeps_one_backup_witness:
  "with_suffix default_app_file ''.bak'' = Inr [''/'', ''opt'', ''exfil0_landing'', ''app.bak''] \<and>
   fst (replace_entire_file default_app_file
     (quiet_host [''/tmp/a.py'', ''/tmp/b.py'']
        [default_app_file \<mapsto> File ''v1'', Path ''/tmp/a.py'' \<mapsto> File ''v2'',
         Path ''/tmp/b.py'' \<mapsto> File ''v3''])) = Return () \<and>
   files (snd (replace_entire_file default_app_file
     (quiet_host [''/tmp/a.py'', ''/tmp/b.py'']
        [default_app_file \<mapsto> File ''v1'', Path ''/tmp/a.py'' \<mapsto> File ''v2'',
         Path ''/tmp/b.py'' \<mapsto> File ''v3''])))
     [''/'', ''opt'', ''exfil0_landing'', ''app.bak''] = Some (File ''v1'') \<and>
   files (snd (replace_entire_file default_app_file
     (quiet_host [''/tmp/a.py'', ''/tmp/b.py'']
        [default_app_file \<mapsto> File ''v1'', Path ''/tmp/a.py'' \<mapsto> File ''v2'',
         Path ''/tmp/b.py'' \<mapsto> File ''v3''])))
     default_app_file = Some (File ''v2'') \<and>
   files (snd (replace_entire_file default_app_file (snd (replace_entire_file default_app_file
     (quiet_host [''/tmp/a.py'', ''/tmp/b.py'']
        [default_app_file \<mapsto> File ''v1'', Path ''/tmp/a.py'' \<mapsto> File ''v2'',
         Path ''/tmp/b.py'' \<mapsto> File ''v3''])))))
     [''/'', ''opt'', ''exfil0_landing'', ''app.bak''] = Some (File ''v2'') \<and>
   files (snd (replace_entire_file default_app_file (snd (replace_entire_file default_app_file
     (quiet_host [''/tmp/a.py'', ''/tmp/b.py'']
        [default_app_file \<mapsto> File ''v1'', Path ''/tmp/a.py'' \<mapsto> File ''v2'',
         Path ''/tmp/b.py'' \<mapsto> File ''v3''])))))
     default_app_file = Some (File ''v3'') \<and>
   fst (replace_entire_file default_app_file
     (quiet_host ['' Manual'', '''', ''import os'', ''x = 1  '', ''   '', ''y'']
        [default_app_file \<mapsto> File ''v1''])) = Return () \<and>
   files (snd (replace_entire_file default_app_file
     (quiet_host ['' Manual'', '''', ''import os'', ''x = 1  '', ''   '', ''y'']
        [default_app_file \<mapsto> File ''v1''])))
     [''/'', ''opt'', ''exfil0_landing'', ''app.bak''] = Some (File ''v1'') \<and>
   files (snd (replace_entire_file default_app_file
     (quiet_host ['' Manual'', '''', ''import os'', ''x = 1  '', ''   '', ''y'']
        [default_app_file \<mapsto> File ''v1''])))
     default_app_file = Some (File (''import os'' @ [nl] @ ''x = 1'')) \<and>
   stdin (snd (replace_entire_file default_app_file
     (quiet_host ['' Manual'', '''', ''import os'', ''x = 1  '', ''   '', ''y'']
        [default_app_file \<mapsto> File ''v1'']))) = [''y'']"
  using full_replacement_keeps_one_backup [where app_path = default_app_file
      and backup_path = "[''/'', ''opt'', ''exfil0_landing'', ''app.bak'']"
      and w = "quiet_host [''/tmp/a.py'', ''/tmp/b.py'']
        [default_app_file \<mapsto> File ''v1'', Path ''/tmp/a.py'' \<mapsto> File ''v2'',
         Path ''/tmp/b.py'' \<mapsto> File ''v3'']"
      and old = "''v1''" and line = "''/tmp/a.py''" and rest = "[''/tmp/b.py'']"
      and new_content = "''v2''" and body = "[]" and blank = "[]" and first = "[]"
      and later = "[]"]
    full_replacement_keeps_one_backup [where app_path = default_app_file
      and backup_path = "[''/'', ''opt'', ''exfil0_landing'', ''app.bak'']"
      and w = "quiet_host ['' Manual'', '''', ''import os'', ''x = 1  '', ''   '', ''y'']
        [default_app_file \<mapsto> File ''v1'']"
      and old = "''v1''" and line = "'' Manual''"
      and rest = "['''', ''import os'', ''x = 1  '', ''   '', ''y'']"
      and new_content = "[]" and body = "[''import os'', ''x = 1  '']" and blank = "''   ''"
      and first = "[]" and later = "[''y'']"]
  by (simp add: host_defs text_defs path_defs default_app_file_parts)

text \<open>
  C2, as the claim words it, fails where the backup path is a directory: the rename
  raises \<open>IsADirectoryError\<close>, which nothing catches, so the backup path does not hold
  the old text and the target still holds it instead of the new content.
\<close>

theorem full_replacement_into_directory_counterexample:
  "fst (replace_entire_file default_app_file
     (quiet_host [''/tmp/a.py'']
        [default_app_file \<mapsto> File ''v1'',
         [''/'', ''opt'', ''exfil0_landing'', ''app.bak''] \<mapsto> Dir [],
         Path ''/tmp/a.py'' \<mapsto> File ''v2''])) = Raise IsADirectoryError \<and>
   files (snd (replace_entire_file default_app_file
     (quiet_host [''/tmp/a.py'']
        [default_app_file \<mapsto> File ''v1'',
         [''/'', ''opt'', ''exfil0_landing'', ''app.bak''] \<mapsto> Dir [],
         Path ''/tmp/a.py'' \<mapsto> File ''v2''])))
     [''/'', ''opt'', ''exfil0_landing'', ''app.bak''] = Some (Dir []) \<and>
   files (snd (replace_entire_file default_app_file
     (quiet_host [''/tmp/a.py'']
        [default_app_file \<mapsto> File ''v1'',
         [''/'', ''opt'', ''exfil0_landing'', ''app.bak''] \<mapsto> Dir [],
         Path ''/tmp/a.py'' \<mapsto> File ''v2''])))
     default_app_file = Some (File ''v1'') \<and>
   Some (Dir []) \<noteq> Some (File ''v1'') \<and> Some (File ''v1'') \<noteq> Some (File ''v2'')"
  by (simp add: replace_entire_file_def prog_defs host_defs text_defs path_defs
      default_app_file_parts Let_def)

text \<open>
  C9. The backup path is \<open>with_suffix\<close> of the target: a final extension gives way to
  \<open>.bak\<close>, so \<open>app.py\<close> is backed up to \<open>app.bak\<close> and not to \<open>app.py.bak\<close>, and a file
  already at \<open>app.bak\<close> is overwritten by the backup while \<open>app.py.bak\<close> is left alone.
\<close>

theorem backup_path_swaps_extension:
  "(stem \<noteq> [] \<and> ext \<noteq> [] \<and> CHR ''.'' \<notin> set ext \<longrightarrow>
      with_suffix (dir @ [stem @ ''.'' @ ext]) ''.bak'' = Inr (dir @ [stem @ ''.bak''])) \<and>
   with_suffix (dir @ [''app.py'']) ''.bak'' = Inr (dir @ [''app.bak'']) \<and>
   with_suffix (dir @ [''app.py'']) ''.bak'' \<noteq> Inr (dir @ [''app.py.bak'']) \<and>
   (files w (dir @ [''app.py'']) = Some (File old) \<and>
    files w (dir @ [''app.bak'']) = Some (File sibling) \<and>
    stdin w = line # rest \<and> lower (strip line) \<noteq> ''manual'' \<and>
    files w (Path (strip line)) = Some (File new_content) \<longrightarrow>
      fst (replace_entire_file (dir @ [''app.py'']) w) = Return () \<and>
      files (snd (replace_entire_file (dir @ [''app.py'']) w)) (dir @ [''app.bak''])
        = Some (File old) \<and>
      files (snd (replace_entire_file (dir @ [''app.py'']) w)) (dir @ [''app.py.bak''])
        = files w (dir @ [''app.py.bak'']))"
proof (intro conjI impI)
  assume "stem \<noteq> [] \<and> ext \<noteq> [] \<and> CHR ''.'' \<notin> set ext"
  then show "with_suffix (dir @ [stem @ ''.'' @ ext]) ''.bak'' = Inr (dir @ [stem @ ''.bak''])"
    using with_suffix_swaps [of stem ext dir] by simp
next
  show "with_suffix (dir @ [''app.py'']) ''.bak'' = Inr (dir @ [''app.bak''])"
    by (rule app_py_backup)
  show "with_suffix (dir @ [''app.py'']) ''.bak'' \<noteq> Inr (dir @ [''app.py.bak''])"
    by (simp add: app_py_backup)
next
  assume h: "files w (dir @ [''app.py'']) = Some (File old) \<and>
    files w (dir @ [''app.bak'']) = Some (File sibling) \<and>
    stdin w = line # rest \<and> lower (strip line) \<noteq> ''manual'' \<and>
    files w (Path (strip line)) = Some (File new_content)"
  then have nd: "\<forall>entries. files w (dir @ [''app.bak'']) \<noteq> Some (Dir entries)" by simp
  have ne: "dir @ [''app.bak''] \<noteq> dir @ [''app.py'']" by simp
  from h have h1: "files w (dir @ [''app.py'']) = Some (File old)"
    and h3: "stdin w = line # rest" and h4: "lower (strip line) \<noteq> ''manual''"
    and h5: "files w (Path (strip line)) = Some (File new_content)" by simp_all
  note one = replace_entire_file_from_file [OF h3 h4 h5 app_py_backup h1 nd ne]
  show "fst (replace_entire_file (dir @ [''app.py'']) w) = Return ()" by (simp add: one)
  show "files (snd (replace_entire_file (dir @ [''app.py'']) w)) (dir @ [''app.bak''])
        = Some (File old)" by (simp add: one)
  show "files (snd (replace_entire_file (dir @ [''app.py'']) w)) (dir @ [''app.py.bak''])
        = files w (dir @ [''app.py.bak''])" by (simp add: one)
qed

theorem backup_path_swaps_extension_witness:
  "with_suffix (Path ''/opt/exfil0_landing'' @ [''site'' @ ''.'' @ ''py'']) ''.bak''
     = Inr (Path ''/opt/exfil0_landing'' @ [''site.bak'']) \<and>
   files (snd (replace_entire_file (Path ''/opt/exfil0_landing'' @ [''app.py''])
     (quiet_host [''/tmp/a.py'']
        [Path ''/opt/exfil0_landing'' @ [''app.py''] \<mapsto> File ''v1'',
         Path ''/opt/exfil0_landing'' @ [''app.bak''] \<mapsto> File ''notes'',
         Path ''/tmp/a.py'' \<mapsto> File ''v2''])))
     (Path ''/opt/exfil0_landing'' @ [''app.bak'']) = Some (File ''v1'')"
  using backup_path_swaps_extension [of "''site''" "''py''" "Path ''/opt/exfil0_landing''"
      "quiet_host [''/tmp/a.py'']
        [Path ''/opt/exfil0_landing'' @ [''app.py''] \<mapsto> File ''v1'',
         Path ''/opt/exfil0_landing'' @ [''app.bak''] \<mapsto> File ''notes'',
         Path ''/tmp/a.py'' \<mapsto> File ''v2'']"
      "''v1''" "''notes''" "''/tmp/a.py''" "[]" "''v2''"]
  by (simp add: host_defs text_defs Path_def)

section \<open>The wait for the hostname\<close>

declare wait_for_hostname.simps [simp del]

lemma after_sleeps_Suc: "after_sleeps (Suc k) w = after_sleeps k (snd (sleep 5 w))"
  unfolding after_sleeps_def by (simp only: funpow_Suc_right o_apply)

lemma after_sleeps_0: "after_sleeps 0 w = w"
  by (simp add: after_sleeps_def)

lemma clock_after_sleeps: "clock (after_sleeps k w) = clock w + 5 * k"
  by (induction k arbitrary: w) (simp_all add: after_sleeps_0 after_sleeps_Suc sleep_def)

lemma logged_after_sleeps: "logged (after_sleeps k w) = logged w"
  by (induction k arbitrary: w) (simp_all add: after_sleeps_0 after_sleeps_Suc sleep_def)

lemma wait_found:
  "elapsed + 5 * k < max_wait \<Longrightarrow>
   \<forall>j<k. files (after_sleeps j w) hostname_file = None \<Longrightarrow>
   files (after_sleeps k w) hostname_file = Some (File text) \<Longrightarrow>
   wait_for_hostname elapsed w =
     (Return (strip text),
      (after_sleeps k w)\<lparr>logged := logged w @ [(INFO, ''Your .onion address is: '' @ strip text)]\<rparr>)"
proof (induction k arbitrary: elapsed w)
  case 0
  then show ?case
    by (subst wait_for_hostname.simps) (simp add: after_sleeps_0 prog_defs Let_def)
next
  case (Suc k)
  have absent: "files w hostname_file = None"
    using Suc.prems(2) [rule_format, of 0] by (simp add: after_sleeps_0)
  have rest: "\<forall>j<k. files (after_sleeps j (snd (sleep 5 w))) hostname_file = None"
    using Suc.prems(2) by (auto simp: after_sleeps_Suc [symmetric])
  have here: "files (after_sleeps k (snd (sleep 5 w))) hostname_file = Some (File text)"
    using Suc.prems(3) by (simp add: after_sleeps_Suc)
  have lt: "elapsed + 5 + 5 * k < max_wait" using Suc.prems(1) by simp
  have lg: "logged (snd (sleep 5 w)) = logged w" by (simp add: sleep_def)
  have "wait_for_hostname elapsed w = wait_for_hostname (elapsed + 5) (snd (sleep 5 w))"
    using Suc.prems(1) absent by (subst wait_for_hostname.simps) simp
  also have "\<dots> = (Return (strip text),
      (after_sleeps k (snd (sleep 5 w)))\<lparr>logged := logged (snd (sleep 5 w)) @
         [(INFO, ''Your .onion address is: '' @ strip text)]\<rparr>)"
    using Suc.IH [OF lt rest here] .
  finally show ?case by (simp add: after_sleeps_Suc lg)
qed

lemma wait_found_dir:
  "elapsed + 5 * k < max_wait \<Longrightarrow>
   \<forall>j<k. files (after_sleeps j w) hostname_file = None \<Longrightarrow>
   files (after_sleeps k w) hostname_file = Some (Dir entries) \<Longrightarrow>
   wait_for_hostname elapsed w = (Raise IsADirectoryError, after_sleeps k w)"
proof (induction k arbitrary: elapsed w)
  case 0
  then show ?case
    by (subst wait_for_hostname.simps) (simp add: after_sleeps_0 prog_defs Let_def)
next
  case (Suc k)
  have absent: "files w hostname_file = None"
    using Suc.prems(2) [rule_format, of 0] by (simp add: after_sleeps_0)
  have rest: "\<forall>j<k. files (after_sleeps j (snd (sleep 5 w))) hostname_file = None"
    using Suc.prems(2) by (auto simp: after_sleeps_Suc [symmetric])
  have here: "files (after_sleeps k (snd (sleep 5 w))) hostname_file = Some (Dir entries)"
    using Suc.prems(3) by (simp add: after_sleeps_Suc)
  have lt: "elapsed + 5 + 5 * k < max_wait" using Suc.prems(1) by simp
  have "wait_for_hostname elapsed w = wait_for_hostname (elapsed + 5) (snd (sleep 5 w))"
    using Suc.prems(1) absent by (subst wait_for_hostname.simps) simp
  also have "\<dots> = (Raise IsADirectoryError, after_sleeps k (snd (sleep 5 w)))"
    using Suc.IH [OF lt rest here] .
  finally show ?case by (simp add: after_sleeps_Suc)
qed

lemma wait_timeout:
  "max_wait \<le> elapsed + 5 * k \<Longrightarrow> (k = 0 \<or> elapsed + 5 * (k - 1) < max_wait) \<Longrightarrow>
   \<forall>j<k. files (after_sleeps j w) hostname_file = None \<Longrightarrow>
   wait_for_hostname elapsed w =
     (Exit 1,
      (after_sleeps k w)\<lparr>logged := logged w @ [(ERROR,
        ''No /var/lib/tor/hidden_service/hostname found after 60s. Check 'journalctl -u tor'.'')]\<rparr>)"
proof (induction k arbitrary: elapsed w)
  case 0
  then show ?case
    by (subst wait_for_hostname.simps) (simp add: after_sleeps_0 prog_defs)
next
  case (Suc k)
  have lt0: "elapsed < max_wait" using Suc.prems(2) by simp
  have absent: "files w hostname_file = None"
    using Suc.prems(3) [rule_format, of 0] by (simp add: after_sleeps_0)
  have rest: "\<forall>j<k. files (after_sleeps j (snd (sleep 5 w))) hostname_file = None"
    using Suc.prems(3) by (auto simp: after_sleeps_Suc [symmetric])
  have ge: "max_wait \<le> elapsed + 5 + 5 * k" using Suc.prems(1) by simp
  have bd: "k = 0 \<or> elapsed + 5 + 5 * (k - 1) < max_wait"
    using Suc.prems(2) by (cases k) simp_all
  have lg: "logged (snd (sleep 5 w)) = logged w" by (simp add: sleep_def)
  have "wait_for_hostname elapsed w = wait_for_hostname (elapsed + 5) (snd (sleep 5 w))"
    using lt0 absent by (subst wait_for_hostname.simps) simp
  also have "\<dots> = (Exit 1,
      (after_sleeps k (snd (sleep 5 w)))\<lparr>logged := logged (snd (sleep 5 w)) @ [(ERROR,
        ''No /var/lib/tor/hidden_service/hostname found after 60s. Check 'journalctl -u tor'.'')]\<rparr>)"
    using Suc.IH [OF ge bd rest] .
  finally show ?case by (simp add: after_sleeps_Suc lg)
qed

lemma wait_exit_only_on_timeout:
  assumes "fst (wait_for_hostname 0 w) = Exit n"
  shows "\<forall>j<12. files (after_sleeps j w) hostname_file = None"
proof (rule ccontr)
  assume "\<not> (\<forall>j<12. files (after_sleeps j w) hostname_file = None)"
  then obtain j where j: "j < 12" "files (after_sleeps j w) hostname_file \<noteq> None" by auto
  define k where "k = (LEAST i. files (after_sleeps i w) hostname_file \<noteq> None)"
  have here: "files (after_sleeps k w) hostname_file \<noteq> None"
    unfolding k_def using j(2) by (rule LeastI)
  have "k \<le> j" unfolding k_def using j(2) by (rule Least_le)
  then have lt: "0 + 5 * k < max_wait" using j(1) by (simp add: max_wait_def)
  have before: "\<forall>i<k. files (after_sleeps i w) hostname_file = None"
    unfolding k_def using not_less_Least by blast
  from here obtain nd where nd: "files (after_sleeps k w) hostname_file = Some nd" by auto
  show False
  proof (cases nd)
    case (File content)
    with wait_found [OF lt before] nd assms show False by simp
  next
    case (Dir entries)
    with wait_found_dir [OF lt before] nd assms show False by simp
  qed
qed

text \<open>
  C3. The wait loop, as \<open>enable_tor_single_instance\<close> enters it (\<open>elapsed\<close> zero), looks
  at the hostname file every five seconds, twelve times in all. If the file is there at
  look \<open>k\<close>, the first look to find anything, the loop returns its trimmed text, after
  \<open>5 * k\<close> seconds of sleep. If no look finds it, the process exits with status 1 once
  \<open>max_wait\<close> seconds have been slept; and an exit of the loop never comes earlier, nor
  with another status, nor while some look found the file.
\<close>

theorem hostname_poll_bounds:
  "(k < 12 \<and> (\<forall>j<k. files (after_sleeps j w) hostname_file = None) \<and>
    files (after_sleeps k w) hostname_file = Some (File text) \<longrightarrow>
      fst (wait_for_hostname 0 w) = Return (strip text) \<and>
      clock (snd (wait_for_hostname 0 w)) = clock w + 5 * k) \<and>
   ((\<forall>j<12. files (after_sleeps j w) hostname_file = None) \<longrightarrow>
      fst (wait_for_hostname 0 w) = Exit 1 \<and>
      exit_status (fst (wait_for_hostname 0 w)) \<noteq> 0 \<and>
      clock (snd (wait_for_hostname 0 w)) = clock w + max_wait) \<and>
   (\<forall>n. fst (wait_for_hostname 0 w) = Exit n \<longrightarrow>
      n = 1 \<and> clock w + max_wait \<le> clock (snd (wait_for_hostname 0 w)) \<and>
      (\<forall>j<12. files (after_sleeps j w) hostname_file = None))"
proof (intro conjI impI allI)
  assume h: "k < 12 \<and> (\<forall>j<k. files (after_sleeps j w) hostname_file = None) \<and>
    files (after_sleeps k w) hostname_file = Some (File text)"
  then have lt: "0 + 5 * k < max_wait" by (simp add: max_wait_def)
  note found = wait_found [OF lt conjunct1 [OF conjunct2 [OF h]] conjunct2 [OF conjunct2 [OF h]]]
  show "fst (wait_for_hostname 0 w) = Return (strip text)" by (simp add: found)
  show "clock (snd (wait_for_hostname 0 w)) = clock w + 5 * k"
    by (simp add: found clock_after_sleeps)
next
  assume h: "\<forall>j<12. files (after_sleeps j w) hostname_file = None"
  have "wait_for_hostname 0 w =
     (Exit 1,
      (after_sleeps 12 w)\<lparr>logged := logged w @ [(ERROR,
        ''No /var/lib/tor/hidden_service/hostname found after 60s. Check 'journalctl -u tor'.'')]\<rparr>)"
    by (rule wait_timeout) (simp_all add: max_wait_def h)
  then show "fst (wait_for_hostname 0 w) = Exit 1"
    and "exit_status (fst (wait_for_hostname 0 w)) \<noteq> 0"
    and "clock (snd (wait_for_hostname 0 w)) = clock w + max_wait"
    by (simp_all add: clock_after_sleeps max_wait_def)
next
  fix n assume e: "fst (wait_for_hostname 0 w) = Exit n"
  then have h: "\<forall>j<12. files (after_sleeps j w) hostname_file = None"
    by (rule wait_exit_only_on_timeout)
  have t: "wait_for_hostname 0 w =
     (Exit 1,
      (after_sleeps 12 w)\<lparr>logged := logged w @ [(ERROR,
        ''No /var/lib/tor/hidden_service/hostname found after 60s. Check 'journalctl -u tor'.'')]\<rparr>)"
    by (rule wait_timeout) (simp_all add: max_wait_def h)
  show "n = 1" using e by (simp add: t)
  show "clock w + max_wait \<le> clock (snd (wait_for_hostname 0 w))"
    by (simp add: t clock_after_sleeps max_wait_def)
  fix j assume "j < (12::nat)"
  then show "files (after_sleeps j w) hostname_file = None" using h by simp
qed

lemma idle_after_sleeps: "daemon w = (\<lambda>t fs. fs) \<Longrightarrow> files (after_sleeps j w) = files w"
  by (induction j arbitrary: w) (simp_all add: after_sleeps_0 after_sleeps_Suc sleep_def)

theorem hostname_poll_bounds_witness:
  "files (after_sleeps 0 (world_of 0 [] Map.empty
       (\<lambda>cmd fs. (\<lparr>returncode = 0, stdout = [], stderr = []\<rparr>, fs))
       (\<lambda>t fs. fs(hostname_file \<mapsto> File ('' abcdef.onion'' @ [nl])))))
     hostname_file = None \<and>
   fst (wait_for_hostname 0 (world_of 0 [] Map.empty
       (\<lambda>cmd fs. (\<lparr>returncode = 0, stdout = [], stderr = []\<rparr>, fs))
       (\<lambda>t fs. fs(hostname_file \<mapsto> File ('' abcdef.onion'' @ [nl])))))
     = Return ''abcdef.onion'' \<and>
   clock (snd (wait_for_hostname 0 (world_of 0 [] Map.empty
       (\<lambda>cmd fs. (\<lparr>returncode = 0, stdout = [], stderr = []\<rparr>, fs))
       (\<lambda>t fs. fs(hostname_file \<mapsto> File ('' abcdef.onion'' @ [nl])))))) = 5 \<and>
   fst (wait_for_hostname 0 (quiet_host [] Map.empty)) = Exit 1 \<and>
   clock (snd (wait_for_hostname 0 (quiet_host [] Map.empty))) = 60"
proof -
  have idle: "\<forall>j<12. files (after_sleeps j (quiet_host [] Map.empty)) hostname_file = None"
    by (simp add: idle_after_sleeps host_defs)
  have first: "\<forall>j<1. files (after_sleeps j (world_of 0 [] Map.empty
       (\<lambda>cmd fs. (\<lparr>returncode = 0, stdout = [], stderr = []\<rparr>, fs))
       (\<lambda>t fs. fs(hostname_file \<mapsto> File ('' abcdef.onion'' @ [nl])))))
     hostname_file = None"
    by (simp add: after_sleeps_0 world_of_def)
  have then_there: "files (after_sleeps 1 (world_of 0 [] Map.empty
       (\<lambda>cmd fs. (\<lparr>returncode = 0, stdout = [], stderr = []\<rparr>, fs))
       (\<lambda>t fs. fs(hostname_file \<mapsto> File ('' abcdef.onion'' @ [nl])))))
     hostname_file = Some (File ('' abcdef.onion'' @ [nl]))"
    by (simp add: after_sleeps_def sleep_def world_of_def)
  show ?thesis
    using first then_there idle
      hostname_poll_bounds [of 1 "world_of 0 [] Map.empty
       (\<lambda>cmd fs. (\<lparr>returncode = 0, stdout = [], stderr = []\<rparr>, fs))
       (\<lambda>t fs. fs(hostname_file \<mapsto> File ('' abcdef.onion'' @ [nl])))" "'' abcdef.onion'' @ [nl]"]
      hostname_poll_bounds [of 0 "quiet_host [] Map.empty" "[]"]
    by (simp add: host_defs text_defs max_wait_def after_sleeps_0)
qed

section \<open>The orchestrator\<close>

lemma steadyI:
  assumes "\<And>w. euid (snd (m w)) = euid w"
    and "\<And>w x. fst (m w) = Return x \<Longrightarrow> clean w \<Longrightarrow> clean (snd (m w))"
    and "\<And>w n. fst (m w) = Exit n \<Longrightarrow> n = 1"
  shows "steady m"
  unfolding steady_def using assms by (auto split: result.splits)

lemma steady_then_do:
  assumes "steady m" and "\<And>x. steady (f x)"
  shows "steady (then_do m f)"
proof (rule steadyI)
  fix w
  obtain r w' where mw: "m w = (r, w')" by (cases "m w")
  have e: "euid w' = euid w" using assms(1) mw by (auto simp: steady_def dest: spec [of _ w])
  show "euid (snd (then_do m f w)) = euid w"
  proof (cases r)
    case (Return x)
    have "euid (snd (f x w')) = euid w'" using assms(2) [of x] by (simp add: steady_def)
    then show ?thesis using mw Return e by (simp add: then_do_def)
  qed (use mw e in \<open>simp_all add: then_do_def\<close>)
  {
    fix y assume ret: "fst (then_do m f w) = Return y" and c: "clean w"
    show "clean (snd (then_do m f w))"
    proof (cases r)
      case (Return x)
      have c': "clean w'"
        using assms(1) mw Return c by (auto simp: steady_def dest: spec [of _ w])
      have "fst (f x w') = Return y" using ret mw Return by (simp add: then_do_def)
      then have "clean (snd (f x w'))"
        using assms(2) [of x] c' by (auto simp: steady_def dest: spec [of _ w'])
      then show ?thesis using mw Return by (simp add: then_do_def)
    qed (use ret mw in \<open>simp_all add: then_do_def\<close>)
  }
  {
    fix n assume ex: "fst (then_do m f w) = Exit n"
    show "n = 1"
    proof (cases r)
      case (Return x)
      have "fst (f x w') = Exit n" using ex mw Return by (simp add: then_do_def)
      then show ?thesis using assms(2) [of x] by (auto simp: steady_def dest: spec [of _ w'])
    next
      case (Exit k)
      then have "k = n" using ex mw by (simp add: then_do_def)
      then show ?thesis
        using assms(1) mw Exit by (auto simp: steady_def dest: spec [of _ w])
    next
      case (Raise e)
      then show ?thesis using ex mw by (simp add: then_do_def)
    qed
  }
qed

lemma steady_pure: "steady (pure x)"
  by (simp add: steady_def pure_def)

lemma steady_sys_exit: "steady (sys_exit 1)"
  by (simp add: steady_def sys_exit_def)

lemma steady_print: "steady (print s)"
  by (simp add: steady_def print_def clean_def)

lemma steady_logger: "(l, msg) \<noteq> timeout_record \<Longrightarrow> steady (logger l msg)"
  by (simp add: steady_def logger_def clean_def)

lemma steady_is_file: "steady (is_file p)"
  by (simp add: steady_def is_file_def)

lemma steady_write_text: "steady (write_text p s)"
  by (auto simp: steady_def write_text_def clean_def split: option.splits node.splits)

lemma steady_geteuid: "steady geteuid"
  by (simp add: steady_def geteuid_def)

lemma steady_ask_user: "steady (ask_user question)"
proof -
  have no_exit: "ask_user_loop question out lines \<noteq> (Exit n, rest, out')"
    for out lines n rest out'
    by (induction lines arbitrary: out) (simp_all add: Let_def)
  show ?thesis
    by (auto simp: steady_def ask_user_def clean_def no_exit split: prod.splits result.splits)
qed

lemma steady_ignore: "steady m \<Longrightarrow> steady (ignore m)"
  unfolding ignore_def by (intro steady_then_do steady_pure)

lemma steady_run_all: "(\<And>m. m \<in> set ms \<Longrightarrow> steady m) \<Longrightarrow> steady (run_all ms)"
  by (induction ms) (auto intro: steady_then_do steady_pure)

lemma steady_if: "steady a \<Longrightarrow> steady b \<Longrightarrow> steady (if c then a else b)"
  by simp

lemma steady_subprocess_run:
  "cmd \<notin> set fatal_commands \<Longrightarrow> steady (subprocess_run cmd check)"
  by (auto simp: steady_def subprocess_run_def clean_def split: prod.splits)

lemma run_command_result:
  assumes "shell w (if euid w \<noteq> 0 then ''sudo '' @ command else command) (files w) = (result, fs)"
  shows "run_command command exit_on_fail w =
    (if returncode result = 0 then Return (Some (strip (stdout result)))
     else if exit_on_fail then Exit 1 else Return None,
     w\<lparr>logged := logged w @ [(INFO, ''Executing command: '' @ command)] @
          (if returncode result = 0 then []
           else [(ERROR, ''Command failed: '' @ strip (stderr result))]),
       files := fs,
       ran := ran w @ [(if euid w \<noteq> 0 then ''sudo '' @ command else command, True,
                        returncode result)]\<rparr>)"
  using assms by (simp add: run_command_def prog_defs Let_def)

lemma steady_run_command:
  assumes "\<not> exit_on_fail \<Longrightarrow> command \<notin> set fatal_commands"
  shows "steady (run_command command exit_on_fail)"
proof (rule steadyI)
  fix w :: world
  obtain result fs
    where sh: "shell w (if euid w \<noteq> 0 then ''sudo '' @ command else command) (files w) = (result, fs)"
    by (cases "shell w (if euid w \<noteq> 0 then ''sudo '' @ command else command) (files w)")
  note res = run_command_result [OF sh]
  show "euid (snd (run_command command exit_on_fail w)) = euid w"
    by (simp add: res)
  {
    fix n assume "fst (run_command command exit_on_fail w) = Exit n"
    then show "n = 1"
      by (simp add: res split: if_splits)
  }
  {
    fix x assume r: "fst (run_command command exit_on_fail w) = Return x" and c: "clean w"
    have fresh: "(ERROR, ''Command failed: '' @ strip (stderr result)) \<noteq> timeout_record"
      by (simp add: timeout_record_def)
    show "clean (snd (run_command command exit_on_fail w))"
    proof (cases "returncode result = 0")
      case True
      then show ?thesis using c by (simp add: res clean_def timeout_record_def)
    next
      case False
      then have soft: "\<not> exit_on_fail" using r by (auto simp: res)
      then show ?thesis
        using c False assms by (simp add: res clean_def timeout_record_def)
    qed
  }
qed

lemma steady_run_all_Nil: "steady (run_all [])"
  by (simp add: steady_pure)

lemma steady_run_all_Cons: "steady m \<Longrightarrow> steady (run_all ms) \<Longrightarrow> steady (run_all (m # ms))"
  by (simp add: steady_then_do)

lemma steady_case_option:
  "steady a \<Longrightarrow> (\<And>x. steady (f x)) \<Longrightarrow> steady (case v of None \<Rightarrow> a | Some x \<Rightarrow> f x)"
  by (cases v) simp_all

lemmas steady_intros = steady_then_do steady_run_all_Nil steady_run_all_Cons steady_ignore
  steady_if steady_case_option steady_pure steady_sys_exit steady_print steady_logger
  steady_is_file steady_write_text steady_geteuid steady_ask_user steady_subprocess_run
  steady_run_command

lemmas side_defs = timeout_record_def fatal_commands_def packages_def

lemma steady_check_root: "steady check_root"
  unfolding check_root_def by (intro steady_intros) (simp_all add: side_defs)

lemma steady_wizard_banner: "steady wizard_banner"
  unfolding wizard_banner_def by (intro steady_intros)

lemma steady_purge_old_tor: "steady purge_old_tor"
  unfolding purge_old_tor_def by (intro steady_intros) (simp_all add: side_defs)

lemma steady_fix_time: "steady fix_time"
  unfolding fix_time_def by (intro steady_intros) (simp_all add: side_defs)

lemma steady_detect_selinux: "steady detect_selinux"
  unfolding detect_selinux_def Let_def by (intro steady_intros) (simp_all add: side_defs)

lemma steady_disable_selinux_if_present: "steady disable_selinux_if_present"
  unfolding disable_selinux_if_present_def
  by (intro steady_intros steady_detect_selinux) (simp_all add: side_defs)

lemma steady_install_tor_and_security: "steady install_tor_and_security"
  unfolding install_tor_and_security_def by (intro steady_intros) (simp_all add: side_defs)

lemma steady_write_minimal_torrc: "steady write_minimal_torrc"
  unfolding write_minimal_torrc_def by (intro steady_intros) (simp_all add: side_defs)

lemma steady_secure_server: "steady secure_server"
  unfolding secure_server_def by (intro steady_intros) (simp_all add: side_defs)

lemma wait_euid: "euid (snd (wait_for_hostname elapsed w)) = euid w"
proof (induction elapsed w rule: wait_for_hostname.induct)
  case (1 elapsed w)
  show ?case
  proof (cases "elapsed < max_wait \<and> files w hostname_file = None")
    case True
    then have "wait_for_hostname elapsed w = wait_for_hostname (elapsed + 5) (snd (sleep 5 w))"
      by (subst wait_for_hostname.simps) simp
    moreover have "euid (snd (wait_for_hostname (elapsed + 5) (snd (sleep 5 w)))) = euid (snd (sleep 5 w))"
      using True by (intro "1.IH") simp_all
    ultimately show ?thesis by (simp add: sleep_def)
  next
    case False
    then show ?thesis
      by (subst wait_for_hostname.simps)
        (auto simp: prog_defs Let_def split: option.splits node.splits)
  qed
qed

lemma wait_exit: "fst (wait_for_hostname elapsed w) = Exit n \<Longrightarrow> n = 1"
proof (induction elapsed w rule: wait_for_hostname.induct)
  case (1 elapsed w)
  show ?case
  proof (cases "elapsed < max_wait \<and> files w hostname_file = None")
    case True
    then have "wait_for_hostname elapsed w = wait_for_hostname (elapsed + 5) (snd (sleep 5 w))"
      by (subst wait_for_hostname.simps) simp
    then have "fst (wait_for_hostname (elapsed + 5) (snd (sleep 5 w))) = Exit n"
      using "1.prems" by simp
    then show ?thesis using True by (intro "1.IH") simp_all
  next
    case False
    then show ?thesis
      using "1.prems"
      by (subst (asm) wait_for_hostname.simps)
        (auto simp: prog_defs Let_def split: option.splits node.splits if_splits)
  qed
qed

lemma wait_clean:
  "fst (wait_for_hostname elapsed w) = Return x \<Longrightarrow> clean w \<Longrightarrow>
   clean (snd (wait_for_hostname elapsed w))"
proof (induction elapsed w rule: wait_for_hostname.induct)
  case (1 elapsed w)
  show ?case
  proof (cases "elapsed < max_wait \<and> files w hostname_file = None")
    case True
    then have eq: "wait_for_hostname elapsed w = wait_for_hostname (elapsed + 5) (snd (sleep 5 w))"
      by (subst wait_for_hostname.simps) simp
    have c: "clean (snd (sleep 5 w))" using "1.prems"(2) by (simp add: sleep_def clean_def)
    have "fst (wait_for_hostname (elapsed + 5) (snd (sleep 5 w))) = Return x"
      using "1.prems"(1) eq by simp
    then have "clean (snd (wait_for_hostname (elapsed + 5) (snd (sleep 5 w))))"
      using True c by (intro "1.IH") simp_all
    then show ?thesis by (simp add: eq)
  next
    case False
    then show ?thesis
      using "1.prems"
      by (subst wait_for_hostname.simps, subst (asm) wait_for_hostname.simps)
        (auto simp: prog_defs Let_def clean_def timeout_record_def
          split: option.splits node.splits if_splits)
  qed
qed

lemma steady_wait_for_hostname: "steady (wait_for_hostname elapsed)"
  by (rule steadyI) (auto simp: wait_euid intro: wait_exit wait_clean)

lemma steady_enable_tor_single_instance: "steady enable_tor_single_instance"
  unfolding enable_tor_single_instance_def
  by (intro steady_intros steady_wait_for_hostname) (simp_all add: side_defs)

lemma steady_main: "steady main"
  unfolding main_def
  by (intro steady_intros steady_check_root steady_wizard_banner steady_purge_old_tor
      steady_fix_time steady_disable_selinux_if_present steady_install_tor_and_security
      steady_write_minimal_torrc steady_enable_tor_single_instance steady_secure_server)
    (simp_all add: side_defs)

lemma ask_user_declines:
  "stdin w \<noteq> [] \<Longrightarrow> lower (strip (hd (stdin w))) \<in> set [''n'', ''no''] \<Longrightarrow>
   ask_user question w =
     (Return False,
      w\<lparr>stdin := tl (stdin w), console := console w @ [question @ '' [y/n]: '']\<rparr>)"
  by (cases "stdin w") (auto simp: ask_user_def Let_def)

lemma ask_user_accepts:
  "stdin w \<noteq> [] \<Longrightarrow> lower (strip (hd (stdin w))) \<in> set [''y'', ''yes''] \<Longrightarrow>
   ask_user question w =
     (Return True,
      w\<lparr>stdin := tl (stdin w), console := console w @ [question @ '' [y/n]: '']\<rparr>)"
  by (cases "stdin w") (auto simp: ask_user_def Let_def)

lemma main_not_root: "euid w \<noteq> 0 \<Longrightarrow> fst (main w) = Exit 1"
  by (simp add: main_def check_root_def prog_defs)

lemma main_all_declined:
  assumes "euid w = 0" "stdin w = [a1, a2, a3, a4, a5, a6, a7] @ rest"
    "\<forall>a \<in> set [a1, a2, a3, a4, a5, a6, a7]. lower (strip a) \<in> set [''n'', ''no'']"
  shows "fst (main w) = Return ()"
    and "last (console (snd (main w))) = summary ''UNAVAILABLE''"
    and "ran (snd (main w)) = ran w"
    and "files (snd (main w)) = files w"
    and "stdin (snd (main w)) = rest"
  using assms
  by (simp_all add: main_def check_root_def wizard_banner_def prog_defs ask_user_declines)

lemma main_status: "exit_status (fst (main w)) = 0 \<longleftrightarrow> fst (main w) = Return ()"
proof (cases "fst (main w)")
  case (Exit n)
  then have "n = 1" using steady_main by (auto simp: steady_def dest: spec [of _ w])
  then show ?thesis using Exit by simp
qed simp_all

lemma main_returns_clean:
  assumes "fst (main w) = Return ()" "ran w = []" "logged w = []"
  shows "clean (snd (main w))"
proof -
  have "euid w = 0" using assms(1) main_not_root [of w] by auto
  then have "clean w" using assms(2,3) by (simp add: clean_def)
  then show ?thesis using steady_main assms(1) by (auto simp: steady_def dest: spec [of _ w])
qed

lemma summary_placeholder:
  "str_in ''Your onion address is: (not generated)'' (summary ''UNAVAILABLE'')"
  by (simp add: summary_def arrow_def)

lemma idle_timeout:
  assumes "daemon w = (\<lambda>t fs. fs)" "files w hostname_file = None"
  shows "wait_for_hostname 0 w =
     (Exit 1, (after_sleeps 12 w)\<lparr>logged := logged w @ [timeout_record]\<rparr>)"
  unfolding timeout_record_def
  by (rule wait_timeout) (simp_all add: max_wait_def idle_after_sleeps assms)

text \<open>
  C8. The exit status of \<open>main\<close> of the setup script is 0 exactly when \<open>main\<close> returns.
  Without root it exits with status 1 before anything else. From a start with nothing run
  and nothing logged, a run in which one of the commands run with \<open>exit_on_fail\<close> came
  back with a non-zero status, or in which the wait for the hostname timed out, ends
  with a non-zero status. A run by root that answers all seven questions with \<open>n\<close> or
  \<open>no\<close> returns, so exits with 0: it runs no command, leaves the store alone, and the
  closing message it prints is the one for the placeholder \<open>UNAVAILABLE\<close>, whose
  address line reads \<open>(not generated)\<close>.
\<close>

theorem orchestrator_exit_codes:
  "(exit_status (fst (main w)) = 0 \<longleftrightarrow> fst (main w) = Return ()) \<and>
   (euid w \<noteq> 0 \<longrightarrow> fst (main w) = Exit 1 \<and> exit_status (fst (main w)) \<noteq> 0) \<and>
   (ran w = [] \<and> logged w = [] \<and>
    ((\<exists>entry \<in> set (ran (snd (main w))).
        fst entry \<in> set fatal_commands \<and> snd (snd entry) \<noteq> 0) \<or>
     timeout_record \<in> set (logged (snd (main w)))) \<longrightarrow>
      exit_status (fst (main w)) \<noteq> 0) \<and>
   (euid w = 0 \<and> stdin w = [a1, a2, a3, a4, a5, a6, a7] @ rest \<and>
    (\<forall>a \<in> set [a1, a2, a3, a4, a5, a6, a7]. lower (strip a) \<in> set [''n'', ''no'']) \<longrightarrow>
      fst (main w) = Return () \<and> exit_status (fst (main w)) = 0 \<and>
      last (console (snd (main w))) = summary ''UNAVAILABLE'' \<and>
      ran (snd (main w)) = ran w \<and> files (snd (main w)) = files w \<and>
      stdin (snd (main w)) = rest) \<and>
   str_in ''Your onion address is: (not generated)'' (summary ''UNAVAILABLE'')"
proof (intro conjI impI)
  show "exit_status (fst (main w)) = 0 \<longleftrightarrow> fst (main w) = Return ()" by (rule main_status)
  show "str_in ''Your onion address is: (not generated)'' (summary ''UNAVAILABLE'')"
    by (rule summary_placeholder)
next
  assume "euid w \<noteq> 0"
  then show "fst (main w) = Exit 1" by (rule main_not_root)
  then show "exit_status (fst (main w)) \<noteq> 0" by simp
next
  assume h: "ran w = [] \<and> logged w = [] \<and>
    ((\<exists>entry \<in> set (ran (snd (main w))).
        fst entry \<in> set fatal_commands \<and> snd (snd entry) \<noteq> 0) \<or>
     timeout_record \<in> set (logged (snd (main w))))"
  show "exit_status (fst (main w)) \<noteq> 0"
  proof
    assume "exit_status (fst (main w)) = 0"
    then have "fst (main w) = Return ()" by (simp add: main_status)
    then have "clean (snd (main w))" using h by (intro main_returns_clean) simp_all
    then show False using h by (auto simp: clean_def)
  qed
next
  assume h: "euid w = 0 \<and> stdin w = [a1, a2, a3, a4, a5, a6, a7] @ rest \<and>
    (\<forall>a \<in> set [a1, a2, a3, a4, a5, a6, a7]. lower (strip a) \<in> set [''n'', ''no''])"
  then have a: "euid w = 0" and b: "stdin w = [a1, a2, a3, a4, a5, a6, a7] @ rest"
    and c: "\<forall>a \<in> set [a1, a2, a3, a4, a5, a6, a7]. lower (strip a) \<in> set [''n'', ''no'']"
    by blast+
  show "fst (main w) = Return ()" by (rule main_all_declined [OF a b c])
  then show "exit_status (fst (main w)) = 0" by simp
  show "last (console (snd (main w))) = summary ''UNAVAILABLE''"
    by (rule main_all_declined [OF a b c])
  show "ran (snd (main w)) = ran w" by (rule main_all_declined [OF a b c])
  show "files (snd (main w)) = files w" by (rule main_all_declined [OF a b c])
  show "stdin (snd (main w)) = rest" by (rule main_all_declined [OF a b c])
qed

theorem orchestrator_exit_codes_witness:
  "fst (main (quiet_host [''n'', ''no'', ''N'', '' No '', ''NO'', ''n'', ''nO''] Map.empty))
     = Return () \<and>
   exit_status (fst (main (quiet_host [''n'', ''no'', ''N'', '' No '', ''NO'', ''n'', ''nO'']
     Map.empty))) = 0 \<and>
   last (console (snd (main (quiet_host [''n'', ''no'', ''N'', '' No '', ''NO'', ''n'', ''nO'']
     Map.empty)))) = summary ''UNAVAILABLE'' \<and>
   fst (main (world_of 1000 [] Map.empty
     (\<lambda>cmd fs. (\<lparr>returncode = 0, stdout = [], stderr = []\<rparr>, fs)) (\<lambda>t fs. fs))) = Exit 1 \<and>
   ran (snd (main (world_of 0 [''n'', ''n'', ''n'', ''y''] Map.empty
     (\<lambda>cmd fs. (\<lparr>returncode = 100, stdout = [], stderr = ''E: no network''\<rparr>, fs))
     (\<lambda>t fs. fs)))) =
     [(''apt-get update && apt-get install -y tor ufw fail2ban git build-essential openssl'',
       True, 100)] \<and>
   exit_status (fst (main (world_of 0 [''n'', ''n'', ''n'', ''y''] Map.empty
     (\<lambda>cmd fs. (\<lparr>returncode = 100, stdout = [], stderr = ''E: no network''\<rparr>, fs))
     (\<lambda>t fs. fs)))) \<noteq> 0 \<and>
   timeout_record \<in> set (logged (snd (main
     (quiet_host [''n'', ''n'', ''n'', ''n'', ''n'', ''y''] Map.empty)))) \<and>
   exit_status (fst (main (quiet_host [''n'', ''n'', ''n'', ''n'', ''n'', ''y''] Map.empty)))
     \<noteq> 0"
proof -
  have declined: "\<forall>a \<in> set [''n'', ''no'', ''N'', '' No '', ''NO'', ''n'', ''nO''].
      lower (strip a) \<in> set [''n'', ''no'']"
    by (simp add: text_defs)
  have failed: "ran (snd (main (world_of 0 [''n'', ''n'', ''n'', ''y''] Map.empty
     (\<lambda>cmd fs. (\<lparr>returncode = 100, stdout = [], stderr = ''E: no network''\<rparr>, fs))
     (\<lambda>t fs. fs)))) =
     [(''apt-get update && apt-get install -y tor ufw fail2ban git build-essential openssl'',
       True, 100)]"
    by (simp add: main_def check_root_def wizard_banner_def install_tor_and_security_def
        run_command_def packages_def prog_defs world_of_def ask_user_declines ask_user_accepts
        text_defs Let_def)
  have timed_out: "timeout_record \<in> set (logged (snd (main
     (quiet_host [''n'', ''n'', ''n'', ''n'', ''n'', ''y''] Map.empty))))"
    by (simp add: main_def check_root_def wizard_banner_def enable_tor_single_instance_def
        run_command_def prog_defs host_defs ask_user_declines ask_user_accepts
        text_defs Let_def idle_timeout hostname_file_def Path_def)
  have h1: "euid (quiet_host [''n'', ''no'', ''N'', '' No '', ''NO'', ''n'', ''nO''] Map.empty) = 0 \<and>
      stdin (quiet_host [''n'', ''no'', ''N'', '' No '', ''NO'', ''n'', ''nO''] Map.empty)
        = [''n'', ''no'', ''N'', '' No '', ''NO'', ''n'', ''nO''] @ [] \<and>
      (\<forall>a \<in> set [''n'', ''no'', ''N'', '' No '', ''NO'', ''n'', ''nO''].
         lower (strip a) \<in> set [''n'', ''no''])"
    using declined by (simp add: host_defs)
  have h2: "euid (world_of 1000 [] Map.empty
     (\<lambda>cmd fs. (\<lparr>returncode = 0, stdout = [], stderr = []\<rparr>, fs)) (\<lambda>t fs. fs)) \<noteq> 0"
    by (simp add: world_of_def)
  have h3: "ran (world_of 0 [''n'', ''n'', ''n'', ''y''] Map.empty
        (\<lambda>cmd fs. (\<lparr>returncode = 100, stdout = [], stderr = ''E: no network''\<rparr>, fs))
        (\<lambda>t fs. fs)) = [] \<and>
      logged (world_of 0 [''n'', ''n'', ''n'', ''y''] Map.empty
        (\<lambda>cmd fs. (\<lparr>returncode = 100, stdout = [], stderr = ''E: no network''\<rparr>, fs))
        (\<lambda>t fs. fs)) = [] \<and>
      ((\<exists>entry \<in> set (ran (snd (main (world_of 0 [''n'', ''n'', ''n'', ''y''] Map.empty
        (\<lambda>cmd fs. (\<lparr>returncode = 100, stdout = [], stderr = ''E: no network''\<rparr>, fs))
        (\<lambda>t fs. fs))))).
          fst entry \<in> set fatal_commands \<and> snd (snd entry) \<noteq> 0) \<or>
       timeout_record \<in> set (logged (snd (main (world_of 0 [''n'', ''n'', ''n'', ''y''] Map.empty
        (\<lambda>cmd fs. (\<lparr>returncode = 100, stdout = [], stderr = ''E: no network''\<rparr>, fs))
        (\<lambda>t fs. fs))))))"
    unfolding failed by (simp add: world_of_def fatal_commands_def packages_def)
  have h4: "ran (quiet_host [''n'', ''n'', ''n'', ''n'', ''n'', ''y''] Map.empty) = [] \<and>
      logged (quiet_host [''n'', ''n'', ''n'', ''n'', ''n'', ''y''] Map.empty) = [] \<and>
      ((\<exists>entry \<in> set (ran (snd (main
          (quiet_host [''n'', ''n'', ''n'', ''n'', ''n'', ''y''] Map.empty)))).
          fst entry \<in> set fatal_commands \<and> snd (snd entry) \<noteq> 0) \<or>
       timeout_record \<in> set (logged (snd (main
          (quiet_host [''n'', ''n'', ''n'', ''n'', ''n'', ''y''] Map.empty)))))"
    using timed_out by (simp add: host_defs)
  note c1 = orchestrator_exit_codes [of
      "quiet_host [''n'', ''no'', ''N'', '' No '', ''NO'', ''n'', ''nO''] Map.empty"
      "''n''" "''no''" "''N''" "'' No ''" "''NO''" "''n''" "''nO''" "[]",
      THEN conjunct2, THEN conjunct2, THEN conjunct2, THEN conjunct1, THEN mp, OF h1]
  note c2 = orchestrator_exit_codes [of
      "world_of 1000 [] Map.empty
        (\<lambda>cmd fs. (\<lparr>returncode = 0, stdout = [], stderr = []\<rparr>, fs)) (\<lambda>t fs. fs)",
      THEN conjunct2, THEN conjunct1, THEN mp, OF h2]
  note c3 = orchestrator_exit_codes [of
      "world_of 0 [''n'', ''n'', ''n'', ''y''] Map.empty
        (\<lambda>cmd fs. (\<lparr>returncode = 100, stdout = [], stderr = ''E: no network''\<rparr>, fs))
        (\<lambda>t fs. fs)",
      THEN conjunct2, THEN conjunct2, THEN conjunct1, THEN mp, OF h3]
  note c4 = orchestrator_exit_codes [of
      "quiet_host [''n'', ''n'', ''n'', ''n'', ''n'', ''y''] Map.empty",
      THEN conjunct2, THEN conjunct2, THEN conjunct1, THEN mp, OF h4]
  show ?thesis
    using c1 c2 c3 c4 failed timed_out by blast
qed

end
